theory Spec2Isabelle
  imports Main "HOL-Library.Sublist"
begin

section \<open>Translation manager and content loader of the documentation site\<close>

text \<open>
  The development embeds the two classes of the site, \<open>TranslationManager\<close> and
  \<open>ContentLoader\<close>, as functions over explicit state.

  Conventions of the embedding:
  \<^item> a JavaScript string is a \<open>string\<close>; language tags and content identifiers are ASCII;
  \<^item> an object used as a dictionary is a map over its own properties. A read of a
    translation bundle or of the cache under a name that the object does not own finds
    the member of \<open>Object.prototype\<close> of that name, if there is one (\<open>get_property\<close>).
    \<open>Object.prototype\<close> is the host's own, with no member added or removed. The cache
    keeps that prototype: language codes that are loaded do not name one of its members
    (\<open>__proto__\<close> among them). The tables of \<open>updatePageMeta\<close> are read under content
    types and languages that do not name one of its members. The theorems that depend on
    these conditions state them as hypotheses;
  \<^item> a translation bundle is a flat mapping from keys to strings, as the translation
    source serves it;
  \<^item> \<open>undefined\<close> and \<open>null\<close> are \<open>None\<close>; the empty string is falsy, every
    other string and every object is truthy;
  \<^item> an \<open>async\<close> function is run to completion: it is a function from the state before
    the call to its outcome and the state after it, and a thrown exception is an \<open>Inl\<close>
    outcome;
  \<^item> the network is a function from a URL to what \<open>fetch\<close> does for it, and every call
    of \<open>fetch\<close> is recorded in \<open>fetchLog\<close>;
  \<^item> the elements that the code looks up by id in the page template exist, and the
    collaborators it calls (storage, event listeners, tools loader) do not throw;
  \<^item> console output is not modelled.

  Names follow the source. Where a source name is reserved in Isabelle it carries a
  suffix or prefix: the field \<open>translations\<close> is \<open>translations_cache\<close>, the string method
  \<open>includes\<close> is \<open>str_includes\<close>, the two \<open>init\<close> methods are \<open>init\<close> (translation manager)
  and \<open>content_init\<close> (content loader).
\<close>

subsection \<open>The network\<close>

text \<open>
  \<open>Rejected\<close>: the promise of \<open>fetch\<close> rejects (transport failure).
  \<open>Response ok body\<close>: it resolves to a response with the given \<open>ok\<close> flag; \<open>body\<close> is
  what reading the body (\<open>response.json()\<close>, \<open>response.text()\<close>) gives, \<open>None\<close> when
  that read rejects.
\<close>

datatype 'a fetch_result = Rejected | Response bool "'a option"

text \<open>
  What the code can throw: the three failures of a load, and the \<open>TypeError\<close> of calling
  \<open>includes\<close> on a value that has no such method. \<open>HostDependent\<close> is not an exception of
  the code: it marks the point where the code goes on with a builtin object of the host
  in the place of a bundle, from where on what it does depends on the properties of that
  builtin object and is not modelled.
\<close>

datatype error = NetworkError | LoadFailed string | BodyError | TypeError | HostDependent string

type_synonym translation_bundle = "string \<rightharpoonup> string"

subsection \<open>Reading a property of a plain object\<close>

text \<open>
  The names of the properties of \<open>Object.prototype\<close>. Each is a function, except
  \<open>__proto__\<close>, whose read gives an object: every one is truthy and none is a string.
\<close>

definition prototype_member :: "string \<Rightarrow> bool" where
  "prototype_member name \<longleftrightarrow>
     name \<in> set [''constructor'', ''__defineGetter__'', ''__defineSetter__'', ''hasOwnProperty'',
                 ''__lookupGetter__'', ''__lookupSetter__'', ''isPrototypeOf'',
                 ''propertyIsEnumerable'', ''toString'', ''valueOf'', ''__proto__'',
                 ''toLocaleString'']"

text \<open>
  \<open>obj[name]\<close> on an object literal or a parsed JSON object: its own property, else the
  inherited member of that name, else \<open>undefined\<close>.
\<close>

datatype 'a property = Own 'a | Inherited | Absent

definition get_property :: "(string \<rightharpoonup> 'a) \<Rightarrow> string \<Rightarrow> 'a property" where
  "get_property obj name =
     (case obj name of
        Some v \<Rightarrow> Own v
      | None \<Rightarrow> if prototype_member name then Inherited else Absent)"

subsection \<open>The document as the translation manager sees it\<close>

datatype content = Markup string | PlainText string

text \<open>
  The value of an attribute: a text, or the text that the host gives for the member of
  \<open>Object.prototype\<close> of the given name when it is converted to a string.
\<close>

datatype attr = Attr string | BuiltinAttr string

text \<open>
  An element matched by \<open>[data-key]\<close>: the value of its \<open>data-key\<close> attribute, its
  \<open>title\<close> attribute when it has one, its content (last set through \<open>innerHTML\<close> or
  through \<open>textContent\<close>), and whether its next element sibling exists and carries the
  class \<open>expanded\<close>. The elements are taken to be disjoint: writing one does not remove
  another from the document.
\<close>

record element =
  el_key :: string
  el_title :: "attr option"
  el_content :: content
  el_nextExpanded :: bool

record style =
  backgroundColor :: string
  color :: string

record navigator =
  nav_language :: "string option"
  nav_languages :: "string list option"
  nav_userLanguage :: "string option"
  nav_browserLanguage :: "string option"
  nav_systemLanguage :: "string option"

text \<open>What both classes share of the window: the requests made through \<open>fetch\<close>.\<close>

record window =
  fetchLog :: "string list"

record browser = window +
  navigator :: navigator
  documentLang :: string
  elements :: "element list"
  langButtons :: "string \<rightharpoonup> style"
  clickListeners :: "(string \<times> string) list"
  toolsLoader :: bool
  toolsLoaderCalls :: "string list"
  dispatched :: "string list"
  preferredLanguage :: "string option"

subsection \<open>TranslationManager\<close>

record manager =
  currentLang :: string
  translations_cache :: "string \<rightharpoonup> translation_bundle"
  fallbackLang :: string
  supportedLanguages :: "string list"

definition constructor :: manager where
  "constructor =
     \<lparr>currentLang = ''en'', translations_cache = Map.empty, fallbackLang = ''en'',
      supportedLanguages = [''en'', ''pt'']\<rparr>"

definition translations_url :: "string \<Rightarrow> string" where
  "translations_url language = ''translations/'' @ language @ ''.json''"

definition fetch ::
  "(string \<Rightarrow> 'a fetch_result) \<Rightarrow> string \<Rightarrow> 'w window_scheme
     \<Rightarrow> 'a fetch_result \<times> 'w window_scheme" where
  "fetch net url w = (net url, w\<lparr>fetchLog := fetchLog w @ [url]\<rparr>)"

text \<open>
  The \<open>try\<close> block of \<open>loadTranslations\<close>. The assignment to \<open>this.translations[language]\<close>
  creates or replaces an own entry of the cache; this is what it does for every language
  code but \<open>__proto__\<close>, under which the assignment would replace the prototype of the
  cache instead.
\<close>

definition loadTranslations_try ::
  "(string \<Rightarrow> translation_bundle fetch_result) \<Rightarrow> string \<Rightarrow> manager \<times> browser
     \<Rightarrow> (error + translation_bundle) \<times> manager \<times> browser" where
  "loadTranslations_try net language s =
     (case s of (m, w) \<Rightarrow>
        (case fetch net (translations_url language) w of
           (Rejected, w') \<Rightarrow> (Inl NetworkError, m, w')
         | (Response ok body, w') \<Rightarrow>
             if \<not> ok then (Inl (LoadFailed language), m, w')
             else (case body of
                     None \<Rightarrow> (Inl BodyError, m, w')
                   | Some json \<Rightarrow>
                       (Inr json, m\<lparr>translations_cache := (translations_cache m)(language \<mapsto> json)\<rparr>, w'))))"

function loadTranslations ::
  "(string \<Rightarrow> translation_bundle fetch_result) \<Rightarrow> string \<Rightarrow> manager \<times> browser
     \<Rightarrow> (error + translation_bundle) \<times> manager \<times> browser" where
  "loadTranslations net language (m, w) =
     (case loadTranslations_try net language (m, w) of
        (Inr json, m', w') \<Rightarrow> (Inr json, m', w')
      | (Inl err, m', w') \<Rightarrow>
          if language \<noteq> fallbackLang m' then loadTranslations net (fallbackLang m') (m', w')
          else (Inr Map.empty, m', w'))"
  by pat_completeness auto
termination
  by (relation "measure (\<lambda>(net, language, m, w). if language = fallbackLang m then 0 else 1)")
     (auto simp: loadTranslations_try_def fetch_def
           split: fetch_result.splits if_splits option.splits)

text \<open>
  \<open>String.prototype.includes\<close>: the argument occurs at some position of the string.
\<close>

fun str_includes :: "string \<Rightarrow> string \<Rightarrow> bool" where
  "str_includes [] t = (t = [])"
| "str_includes (c # s) t = (prefix t (c # s) \<or> str_includes s t)"

text \<open>
  \<open>str.split('-')[0]\<close>: the text before the first hyphen (the whole string when it has
  none).
\<close>

definition split_first :: "string \<Rightarrow> string" where
  "split_first str = takeWhile (\<lambda>c. c \<noteq> CHR ''-'') str"

text \<open>\<open>String.prototype.toLowerCase\<close> on ASCII text.\<close>

definition toLowerCase_char :: "char \<Rightarrow> char" where
  "toLowerCase_char c =
     (case map_of (zip ''ABCDEFGHIJKLMNOPQRSTUVWXYZ'' ''abcdefghijklmnopqrstuvwxyz'') c of
        Some l \<Rightarrow> l
      | None \<Rightarrow> c)"

definition toLowerCase :: "string \<Rightarrow> string" where
  "toLowerCase str = map toLowerCase_char str"

text \<open>\<open>.filter(Boolean)\<close> on an array of strings and \<open>undefined\<close> entries.\<close>

fun filter_Boolean :: "string option list \<Rightarrow> string list" where
  "filter_Boolean [] = []"
| "filter_Boolean (None # xs) = filter_Boolean xs"
| "filter_Boolean (Some str # xs) = (if str = [] then filter_Boolean xs else str # filter_Boolean xs)"

definition browserLanguages :: "navigator \<Rightarrow> string list" where
  "browserLanguages nav =
     filter_Boolean
       ([nav_language nav]
        @ (case nav_languages nav of None \<Rightarrow> [] | Some ls \<Rightarrow> map Some ls)
        @ [nav_userLanguage nav, nav_browserLanguage nav, nav_systemLanguage nav])"

text \<open>The \<open>for\<close> loop of \<open>detectBrowserLanguage\<close>; \<open>None\<close> when it ends without a \<open>return\<close>.\<close>

fun detect_loop :: "string list \<Rightarrow> string list \<Rightarrow> string option" where
  "detect_loop supported [] = None"
| "detect_loop supported (browserLang # rest) =
     (let langCode = toLowerCase (split_first browserLang)
      in if langCode \<in> set supported then Some langCode else detect_loop supported rest)"

definition detectBrowserLanguage :: "manager \<Rightarrow> navigator \<Rightarrow> string" where
  "detectBrowserLanguage m nav =
     (case detect_loop (supportedLanguages m) (browserLanguages nav) of
        Some langCode \<Rightarrow> langCode
      | None \<Rightarrow> fallbackLang m)"

text \<open>
  \<open>this.translations[this.currentLang] || this.translations[this.fallbackLang] || {}\<close>:
  a bundle, or the member of \<open>Object.prototype\<close> of the given name when the cache does not
  own the language and the language names one.
\<close>

datatype translations_value = Bundle translation_bundle | Builtin string

definition currentTranslations :: "manager \<Rightarrow> translations_value" where
  "currentTranslations m =
     (case get_property (translations_cache m) (currentLang m) of
        Own b \<Rightarrow> Bundle b
      | Inherited \<Rightarrow> Builtin (currentLang m)
      | Absent \<Rightarrow>
          (case get_property (translations_cache m) (fallbackLang m) of
             Own b \<Rightarrow> Bundle b
           | Inherited \<Rightarrow> Builtin (fallbackLang m)
           | Absent \<Rightarrow> Bundle Map.empty))"

text \<open>
  \<open>translations[key] || dflt\<close> on a bundle, for the two keys of the toggle button, which
  name no member of \<open>Object.prototype\<close>.
\<close>

definition lookup_or :: "translation_bundle \<Rightarrow> string \<Rightarrow> string \<Rightarrow> string" where
  "lookup_or b key dflt = (case b key of None \<Rightarrow> dflt | Some v \<Rightarrow> if v = [] then dflt else v)"

definition updateToggleButton :: "element \<Rightarrow> translation_bundle \<Rightarrow> element" where
  "updateToggleButton button b =
     (if el_nextExpanded button
      then button\<lparr>el_content := PlainText (lookup_or b ''toggle-button-less'' ''Show Less'')\<rparr>
      else button\<lparr>el_content := PlainText (lookup_or b ''toggle-button'' ''Show Tools'')\<rparr>)"

text \<open>
  The callback that \<open>updatePageTranslations\<close> runs on each element: its outcome and the
  element after it. When the key is not owned by the bundle and names a member of
  \<open>Object.prototype\<close>, \<open>translation\<close> is that member: it is truthy, so the \<open>title\<close>
  attribute, if present, is set to its text, and the call of \<open>translation.includes\<close>
  throws a \<open>TypeError\<close>.
\<close>

definition updateElement :: "translation_bundle \<Rightarrow> element \<Rightarrow> (error + unit) \<times> element" where
  "updateElement b el =
     (let key = el_key el in
      if key = ''toggle-button'' then (Inr (), updateToggleButton el b)
      else (case get_property b key of
              Absent \<Rightarrow> (Inr (), el)
            | Own translation \<Rightarrow>
                if translation = [] then (Inr (), el)
                else
                  (let el1 = (if el_title el \<noteq> None
                              then el\<lparr>el_title := Some (Attr translation)\<rparr> else el)
                   in if str_includes translation ''<a href''
                      then (Inr (), el1\<lparr>el_content := Markup translation\<rparr>)
                      else (Inr (), el1\<lparr>el_content := PlainText translation\<rparr>))
            | Inherited \<Rightarrow>
                (Inl TypeError,
                 if el_title el \<noteq> None then el\<lparr>el_title := Some (BuiltinAttr key)\<rparr> else el)))"

text \<open>
  \<open>elements.forEach\<close> with that callback: an exception ends the loop and leaves the
  remaining elements as they are.
\<close>

fun forEach_update :: "translation_bundle \<Rightarrow> element list \<Rightarrow> (error + unit) \<times> element list" where
  "forEach_update b [] = (Inr (), [])"
| "forEach_update b (el # rest) =
     (case updateElement b el of
        (Inl err, el') \<Rightarrow> (Inl err, el' # rest)
      | (Inr _, el') \<Rightarrow> (case forEach_update b rest of (r, rest') \<Rightarrow> (r, el' # rest')))"

text \<open>
  \<open>updatePageTranslations\<close>. With a builtin object in the place of the bundle and an
  element to process, the model stops (\<open>HostDependent\<close>).
\<close>

definition updatePageTranslations :: "manager \<Rightarrow> browser \<Rightarrow> (error + unit) \<times> browser" where
  "updatePageTranslations m w =
     (case currentTranslations m of
        Bundle b \<Rightarrow>
          (case forEach_update b (elements w) of (r, els) \<Rightarrow> (r, w\<lparr>elements := els\<rparr>))
      | Builtin name \<Rightarrow>
          if elements w = [] then (Inr (), w) else (Inl (HostDependent name), w))"

definition button_id :: "string \<Rightarrow> string" where
  "button_id lang = ''lang-'' @ lang"

text \<open>
  \<open>updateLanguageButtons\<close>: the styles that the callback assigns to the button of
  language \<open>lang\<close>, the callback on the buttons of the document (keyed by element id), and
  the \<open>forEach\<close> over the supported languages.
\<close>

definition paintButton :: "manager \<Rightarrow> string \<Rightarrow> style \<Rightarrow> style" where
  "paintButton m lang button =
     (if currentLang m = lang
      then button\<lparr>backgroundColor := ''#e64845'', color := ''white''\<rparr>
      else button\<lparr>backgroundColor := ''#374151'', color := ''#d1d5db''\<rparr>)"

definition updateLanguageButton :: "manager \<Rightarrow> (string \<rightharpoonup> style) \<Rightarrow> string \<Rightarrow> (string \<rightharpoonup> style)" where
  "updateLanguageButton m buttons lang =
     (case buttons (button_id lang) of
        None \<Rightarrow> buttons
      | Some button \<Rightarrow> buttons(button_id lang \<mapsto> paintButton m lang button))"

definition updateLanguageButtons :: "manager \<Rightarrow> browser \<Rightarrow> browser" where
  "updateLanguageButtons m w =
     w\<lparr>langButtons := foldl (updateLanguageButton m) (langButtons w) (supportedLanguages m)\<rparr>"

text \<open>
  A click listener is recorded as the button's id and the language that the listener
  passes to \<open>setLanguage\<close>.
\<close>

definition setupLanguageSwitcher ::
  "(string \<rightharpoonup> style) \<Rightarrow> (string \<times> string) list \<Rightarrow> string \<Rightarrow> (string \<times> string) list" where
  "setupLanguageSwitcher buttons listeners lang =
     (case buttons (button_id lang) of
        None \<Rightarrow> listeners
      | Some button \<Rightarrow> listeners @ [(button_id lang, lang)])"

definition setupLanguageSwitchers :: "manager \<Rightarrow> browser \<Rightarrow> browser" where
  "setupLanguageSwitchers m w =
     w\<lparr>clickListeners :=
         foldl (setupLanguageSwitcher (langButtons w)) (clickListeners w) (supportedLanguages m)\<rparr>"

text \<open>
  The statements of \<open>setLanguage\<close> after the bundle is loaded. An exception of
  \<open>updatePageTranslations\<close> ends the call there. The tools loader, the event listeners
  and the storage are collaborators that do not throw; what the manager sends them is
  recorded.
\<close>

definition setLanguage_apply ::
  "string \<Rightarrow> manager \<times> browser \<Rightarrow> (error + unit) \<times> manager \<times> browser" where
  "setLanguage_apply language s =
     (case s of (m1, w1) \<Rightarrow>
        (let m2 = m1\<lparr>currentLang := language\<rparr>;
             w2 = w1\<lparr>documentLang := language\<rparr>
         in case updatePageTranslations m2 w2 of
              (Inl err, w3) \<Rightarrow> (Inl err, m2, w3)
            | (Inr _, w3) \<Rightarrow>
                (let w4 = updateLanguageButtons m2 w3;
                     w5 = (if toolsLoader w4
                           then w4\<lparr>toolsLoaderCalls := toolsLoaderCalls w4 @ [language]\<rparr>
                           else w4);
                     w6 = w5\<lparr>dispatched := dispatched w5 @ [language]\<rparr>
                 in (Inr (), m2, w6\<lparr>preferredLanguage := Some language\<rparr>))))"

text \<open>
  \<open>setLanguage\<close>. The test \<open>!this.translations[language]\<close> holds when the cache neither
  owns nor inherits a property of that name.
\<close>

definition setLanguage ::
  "(string \<Rightarrow> translation_bundle fetch_result) \<Rightarrow> string \<Rightarrow> manager \<times> browser
     \<Rightarrow> (error + unit) \<times> manager \<times> browser" where
  "setLanguage net language s =
     (case (if get_property (translations_cache (fst s)) language = Absent
            then loadTranslations net language s
            else (Inr Map.empty, s)) of
        (Inl err, s') \<Rightarrow> (Inl err, s')
      | (Inr _, s') \<Rightarrow> setLanguage_apply language s')"

text \<open>The language that \<open>init\<close> settles on, from the stored preference and the browser.\<close>

definition initialLanguage :: "manager \<Rightarrow> browser \<Rightarrow> string" where
  "initialLanguage m w =
     (case preferredLanguage w of
        None \<Rightarrow> detectBrowserLanguage m (navigator w)
      | Some savedLang \<Rightarrow>
          if savedLang \<noteq> [] \<and> savedLang \<in> set (supportedLanguages m) then savedLang
          else detectBrowserLanguage m (navigator w))"

text \<open>The statements of \<open>init\<close> after the initial language is loaded.\<close>

definition init_apply ::
  "string \<Rightarrow> manager \<times> browser \<Rightarrow> (error + unit) \<times> manager \<times> browser" where
  "init_apply lang s =
     (case s of (m2, w2) \<Rightarrow>
        (let m3 = m2\<lparr>currentLang := lang\<rparr>
         in case updatePageTranslations m3 w2 of
              (Inl err, w3) \<Rightarrow> (Inl err, m3, w3)
            | (Inr _, w3) \<Rightarrow>
                (let w4 = updateLanguageButtons m3 w3
                 in (Inr (), m3, setupLanguageSwitchers m3 w4))))"

definition init ::
  "(string \<Rightarrow> translation_bundle fetch_result) \<Rightarrow> manager \<times> browser
     \<Rightarrow> (error + unit) \<times> manager \<times> browser" where
  "init net s =
     (case loadTranslations net (fallbackLang (fst s)) s of
        (Inl err, s') \<Rightarrow> (Inl err, s')
      | (Inr _, m1, w1) \<Rightarrow>
          (let lang = initialLanguage m1 w1 in
           case (if lang \<noteq> fallbackLang m1
                 then loadTranslations net lang (m1, w1)
                 else (Inr Map.empty, m1, w1)) of
             (Inl err, s') \<Rightarrow> (Inl err, s')
           | (Inr _, s') \<Rightarrow> init_apply lang s'))"

definition addSupportedLanguage :: "string \<Rightarrow> manager \<Rightarrow> manager" where
  "addSupportedLanguage languageCode m =
     (if languageCode \<notin> set (supportedLanguages m)
      then m\<lparr>supportedLanguages := supportedLanguages m @ [languageCode]\<rparr>
      else m)"

subsection \<open>ContentLoader\<close>

text \<open>
  The window as the content loader sees it: the \<open>content\<close> query parameter, the path,
  the \<open>hidden\<close> class of the three panels, the markup of the content container, the
  title and description targets, the scroll position and the global reference to the
  loader. The elements that the loader looks up by id exist in the page template.
\<close>

record page = window +
  contentParam :: "string option"
  pathname :: string
  loadingHidden :: bool
  contentHidden :: bool
  errorHidden :: bool
  markdownContent :: string
  documentTitle :: string
  pageTitle :: string
  pageDescription :: string
  ogDescription :: string
  twitterDescription :: string
  ogTitle :: string
  twitterTitle :: string
  scrollPosition :: "nat \<times> nat"
  contentLoaderSet :: bool

record loader =
  contentType :: "string option"
  loader_supportedLanguages :: "string list"

definition loader_constructor :: loader where
  "loader_constructor = \<lparr>contentType = None, loader_supportedLanguages = [''en'', ''pt'']\<rparr>"

definition getContentTypeFromPath :: "string \<Rightarrow> string option" where
  "getContentTypeFromPath path =
     (if str_includes path ''handbook'' then Some ''handbook''
      else if str_includes path ''cli-mode'' then Some ''cli-mode''
      else if str_includes path ''knowledgebase'' then Some ''knowledgebase''
      else if str_includes path ''credits'' then Some ''credits''
      else None)"

definition content_url :: "string \<Rightarrow> string \<Rightarrow> string" where
  "content_url language ctype = ''content/'' @ language @ ''/'' @ ctype @ ''.md''"

text \<open>
  One \<open>try\<close> block of \<open>fetchMarkdownContent\<close>: \<open>Some text\<close> when it returns, \<open>None\<close> when
  control leaves the block without a \<open>return\<close> (response not ok, or an exception caught).
\<close>

definition fetch_text ::
  "(string \<Rightarrow> string fetch_result) \<Rightarrow> string \<Rightarrow> page \<Rightarrow> string option \<times> page" where
  "fetch_text net url p =
     (case fetch net url p of
        (Rejected, p') \<Rightarrow> (None, p')
      | (Response ok body, p') \<Rightarrow> if ok then (body, p') else (None, p'))"

definition fetchMarkdownContent ::
  "(string \<Rightarrow> string fetch_result) \<Rightarrow> string \<Rightarrow> string \<Rightarrow> page \<Rightarrow> string option \<times> page" where
  "fetchMarkdownContent net ctype language p =
     (case fetch_text net (content_url language ctype) p of
        (Some text, p1) \<Rightarrow> (Some text, p1)
      | (None, p1) \<Rightarrow>
          if language \<noteq> ''en'' then
            (case fetch_text net (content_url ''en'' ctype) p1 of
               (Some text, p2) \<Rightarrow> (Some text, p2)
             | (None, p2) \<Rightarrow> (None, p2))
          else (None, p1))"

text \<open>
  The tables of \<open>updatePageMeta\<close>. Text outside ASCII is given by the bytes of its UTF-8
  encoding.
\<close>

definition titles :: "(string \<times> (string \<times> string) list) list" where
  "titles =
     [(''handbook'',
        [(''en'', ''Developer Handbook - LinuxToys''),
         (''pt'', ''Manual do Desenvolvedor - LinuxToys''),
         (''es'', ''Manual del Desarrollador - LinuxToys''),
         (''fr'', ''Manuel du D''
           @ [CHR 0xC3, CHR 0xA9]
           @ ''veloppeur - LinuxToys''),
         (''de'', ''Entwicklerhandbuch - LinuxToys''),
         (''nl'', ''Ontwikkelaarshandboek - LinuxToys''),
         (''zh'', [CHR 0xE5, CHR 0xBC, CHR 0x80, CHR 0xE5, CHR 0x8F, CHR 0x91, CHR 0xE8, CHR 0x80,
            CHR 0x85, CHR 0xE6, CHR 0x89, CHR 0x8B, CHR 0xE5, CHR 0x86, CHR 0x8C]
           @ '' - LinuxToys''),
         (''ja'', [CHR 0xE9, CHR 0x96, CHR 0x8B, CHR 0xE7, CHR 0x99, CHR 0xBA, CHR 0xE8, CHR 0x80,
            CHR 0x85, CHR 0xE3, CHR 0x83, CHR 0x8F, CHR 0xE3, CHR 0x83, CHR 0xB3, CHR 0xE3,
            CHR 0x83, CHR 0x89, CHR 0xE3, CHR 0x83, CHR 0x96, CHR 0xE3, CHR 0x83, CHR 0x83,
            CHR 0xE3, CHR 0x82, CHR 0xAF]
           @ '' - LinuxToys''),
         (''ru'', [CHR 0xD0, CHR 0xA0, CHR 0xD1, CHR 0x83, CHR 0xD0, CHR 0xBA, CHR 0xD0, CHR 0xBE,
            CHR 0xD0, CHR 0xB2, CHR 0xD0, CHR 0xBE, CHR 0xD0, CHR 0xB4, CHR 0xD1, CHR 0x81,
            CHR 0xD1, CHR 0x82, CHR 0xD0, CHR 0xB2, CHR 0xD0, CHR 0xBE]
           @ '' ''
           @ [CHR 0xD1, CHR 0x80, CHR 0xD0, CHR 0xB0, CHR 0xD0, CHR 0xB7, CHR 0xD1, CHR 0x80,
            CHR 0xD0, CHR 0xB0, CHR 0xD0, CHR 0xB1, CHR 0xD0, CHR 0xBE, CHR 0xD1, CHR 0x82,
            CHR 0xD1, CHR 0x87, CHR 0xD0, CHR 0xB8, CHR 0xD0, CHR 0xBA, CHR 0xD0, CHR 0xB0]
           @ '' - LinuxToys''),
         (''ga'', ''L''
           @ [CHR 0xC3, CHR 0xA1]
           @ ''mhleabhar Forbr''
           @ [CHR 0xC3, CHR 0xB3]
           @ ''ra - LinuxToys'')]),
      (''cli-mode'',
        [(''en'', ''CLI Mode Instructions - LinuxToys''),
         (''pt'', ''Instru''
           @ [CHR 0xC3, CHR 0xA7, CHR 0xC3, CHR 0xB5]
           @ ''es do Modo CLI - LinuxToys''),
         (''es'', ''Instrucciones del Modo CLI - LinuxToys''),
         (''fr'', ''Instructions du Mode CLI - LinuxToys''),
         (''de'', ''CLI-Modus Anweisungen - LinuxToys''),
         (''nl'', ''CLI-modus Instructies - LinuxToys''),
         (''zh'', ''CLI ''
           @ [CHR 0xE6, CHR 0xA8, CHR 0xA1, CHR 0xE5, CHR 0xBC, CHR 0x8F, CHR 0xE8, CHR 0xAF,
            CHR 0xB4, CHR 0xE6, CHR 0x98, CHR 0x8E]
           @ '' - LinuxToys''),
         (''ja'', ''CLI''
           @ [CHR 0xE3, CHR 0x83, CHR 0xA2, CHR 0xE3, CHR 0x83, CHR 0xBC, CHR 0xE3, CHR 0x83,
            CHR 0x89, CHR 0xE3, CHR 0x81, CHR 0xAE, CHR 0xE8, CHR 0xAA, CHR 0xAC, CHR 0xE6,
            CHR 0x98, CHR 0x8E]
           @ '' - LinuxToys''),
         (''ru'', [CHR 0xD0, CHR 0x98, CHR 0xD0, CHR 0xBD, CHR 0xD1, CHR 0x81, CHR 0xD1, CHR 0x82,
            CHR 0xD1, CHR 0x80, CHR 0xD1, CHR 0x83, CHR 0xD0, CHR 0xBA, CHR 0xD1, CHR 0x86,
            CHR 0xD0, CHR 0xB8, CHR 0xD0, CHR 0xB8]
           @ '' CLI ''
           @ [CHR 0xD1, CHR 0x80, CHR 0xD0, CHR 0xB5, CHR 0xD0, CHR 0xB6, CHR 0xD0, CHR 0xB8,
            CHR 0xD0, CHR 0xBC, CHR 0xD0, CHR 0xB0]
           @ '' - LinuxToys''),
         (''ga'', ''Treoracha M''
           @ [CHR 0xC3, CHR 0xB3]
           @ ''d CLI - LinuxToys'')]),
      (''knowledgebase'',
        [(''en'', ''Knowledge Base - LinuxToys''),
         (''pt'', ''Base de Conhecimento - LinuxToys''),
         (''es'', ''Base de Conocimientos - LinuxToys''),
         (''fr'', ''Base de Connaissances - LinuxToys''),
         (''de'', ''Wissensdatenbank - LinuxToys''),
         (''nl'', ''Kennisbank - LinuxToys''),
         (''zh'', [CHR 0xE7, CHR 0x9F, CHR 0xA5, CHR 0xE8, CHR 0xAF, CHR 0x86, CHR 0xE5, CHR 0xBA,
            CHR 0x93]
           @ '' - LinuxToys''),
         (''ja'', [CHR 0xE3, CHR 0x83, CHR 0x8A, CHR 0xE3, CHR 0x83, CHR 0xAC, CHR 0xE3, CHR 0x83,
            CHR 0x83, CHR 0xE3, CHR 0x82, CHR 0xB8, CHR 0xE3, CHR 0x83, CHR 0x99, CHR 0xE3,
            CHR 0x83, CHR 0xBC, CHR 0xE3, CHR 0x82, CHR 0xB9]
           @ '' - LinuxToys''),
         (''ru'', [CHR 0xD0, CHR 0x91, CHR 0xD0, CHR 0xB0, CHR 0xD0, CHR 0xB7, CHR 0xD0, CHR 0xB0]
           @ '' ''
           @ [CHR 0xD0, CHR 0xB7, CHR 0xD0, CHR 0xBD, CHR 0xD0, CHR 0xB0, CHR 0xD0, CHR 0xBD,
            CHR 0xD0, CHR 0xB8, CHR 0xD0, CHR 0xB9]
           @ '' - LinuxToys''),
         (''ga'', ''Bunachar Eolais - LinuxToys'')]),
      (''credits'',
        [(''en'', ''Credits & Acknowledgments - LinuxToys''),
         (''pt'', ''Cr''
           @ [CHR 0xC3, CHR 0xA9]
           @ ''ditos & Reconhecimentos - LinuxToys''),
         (''es'', ''Cr''
           @ [CHR 0xC3, CHR 0xA9]
           @ ''ditos & Reconocimientos - LinuxToys''),
         (''fr'', ''Cr''
           @ [CHR 0xC3, CHR 0xA9]
           @ ''dits & Remerciements - LinuxToys''),
         (''de'', ''Credits & Danksagungen - LinuxToys''),
         (''nl'', ''Credits & Dankbetuigingen - LinuxToys''),
         (''zh'', [CHR 0xE8, CHR 0x87, CHR 0xB4, CHR 0xE8, CHR 0xB0, CHR 0xA2]
           @ '' & ''
           @ [CHR 0xE9, CHR 0xB8, CHR 0xA3, CHR 0xE8, CHR 0xB0, CHR 0xA2]
           @ '' - LinuxToys''),
         (''ja'', [CHR 0xE3, CHR 0x82, CHR 0xAF, CHR 0xE3, CHR 0x83, CHR 0xAC, CHR 0xE3, CHR 0x82,
            CHR 0xB8, CHR 0xE3, CHR 0x83, CHR 0x83, CHR 0xE3, CHR 0x83, CHR 0x88]
           @ '' & ''
           @ [CHR 0xE8, CHR 0xAC, CHR 0x9D, CHR 0xE8, CHR 0xBE, CHR 0x9E]
           @ '' - LinuxToys''),
         (''ru'', [CHR 0xD0, CHR 0x90, CHR 0xD0, CHR 0xB2, CHR 0xD1, CHR 0x82, CHR 0xD0, CHR 0xBE,
            CHR 0xD1, CHR 0x80, CHR 0xD1, CHR 0x81, CHR 0xD0, CHR 0xBA, CHR 0xD0, CHR 0xB8,
            CHR 0xD0, CHR 0xB5]
           @ '' ''
           @ [CHR 0xD0, CHR 0xBF, CHR 0xD1, CHR 0x80, CHR 0xD0, CHR 0xB0, CHR 0xD0, CHR 0xB2,
            CHR 0xD0, CHR 0xB0]
           @ '' ''
           @ [CHR 0xD0, CHR 0xB8]
           @ '' ''
           @ [CHR 0xD0, CHR 0xB1, CHR 0xD0, CHR 0xBB, CHR 0xD0, CHR 0xB0, CHR 0xD0, CHR 0xB3,
            CHR 0xD0, CHR 0xBE, CHR 0xD0, CHR 0xB4, CHR 0xD0, CHR 0xB0, CHR 0xD1, CHR 0x80,
            CHR 0xD0, CHR 0xBD, CHR 0xD0, CHR 0xBE, CHR 0xD1, CHR 0x81, CHR 0xD1, CHR 0x82,
            CHR 0xD0, CHR 0xB8]
           @ '' - LinuxToys''),
         (''ga'', ''Creidi''
           @ [CHR 0xC3, CHR 0xBA]
           @ ''int''
           @ [CHR 0xC3, CHR 0xAD]
           @ '' & Aitheantas - LinuxToys'')])]"

definition descriptions :: "(string \<times> (string \<times> string) list) list" where
  "descriptions =
     [(''handbook'',
        [(''en'', ''Complete guide for developing LinuxToys tools and scripts''),
         (''pt'', ''Guia completo para desenvolver ferramentas e scripts do LinuxToys''),
         (''es'', ''Gu''
           @ [CHR 0xC3, CHR 0xAD]
           @ ''a completa para desarrollar herramientas y scripts de LinuxToys''),
         (''fr'', ''Guide complet pour d''
           @ [CHR 0xC3, CHR 0xA9]
           @ ''velopper des outils et scripts LinuxToys''),
         (''de'', ''Vollst''
           @ [CHR 0xC3, CHR 0xA4]
           @ ''ndiger Leitfaden f''
           @ [CHR 0xC3, CHR 0xBC]
           @ ''r die Entwicklung von LinuxToys-Tools und -Skripten''),
         (''nl'', ''Volledige gids voor het ontwikkelen van LinuxToys tools en scripts''),
         (''zh'', [CHR 0xE5, CHR 0xBC, CHR 0x80, CHR 0xE5, CHR 0x8F, CHR 0x91]
           @ '' LinuxToys ''
           @ [CHR 0xE5, CHR 0xB7, CHR 0xA5, CHR 0xE5, CHR 0x85, CHR 0xB7, CHR 0xE5, CHR 0x92,
            CHR 0x8C, CHR 0xE8, CHR 0x84, CHR 0x9A, CHR 0xE6, CHR 0x9C, CHR 0xAC, CHR 0xE7,
            CHR 0x9A, CHR 0x84, CHR 0xE5, CHR 0xAE, CHR 0x8C, CHR 0xE6, CHR 0x95, CHR 0xB4,
            CHR 0xE6, CHR 0x8C, CHR 0x87, CHR 0xE5, CHR 0x8D, CHR 0x97]),
         (''ja'', ''LinuxToys''
           @ [CHR 0xE3, CHR 0x83, CHR 0x84, CHR 0xE3, CHR 0x83, CHR 0xBC, CHR 0xE3, CHR 0x83,
            CHR 0xAB, CHR 0xE3, CHR 0x81, CHR 0xA8, CHR 0xE3, CHR 0x82, CHR 0xB9, CHR 0xE3,
            CHR 0x82, CHR 0xAF, CHR 0xE3, CHR 0x83, CHR 0xAA, CHR 0xE3, CHR 0x83, CHR 0x97,
            CHR 0xE3, CHR 0x83, CHR 0x88, CHR 0xE3, CHR 0x81, CHR 0xAE, CHR 0xE9, CHR 0x96,
            CHR 0x8B, CHR 0xE7, CHR 0x99, CHR 0xBA, CHR 0xE5, CHR 0xAE, CHR 0x8C, CHR 0xE5,
            CHR 0x85, CHR 0xA8, CHR 0xE3, CHR 0x82, CHR 0xAC, CHR 0xE3, CHR 0x82, CHR 0xA4,
            CHR 0xE3, CHR 0x83, CHR 0x89]),
         (''ru'', [CHR 0xD0, CHR 0x9F, CHR 0xD0, CHR 0xBE, CHR 0xD0, CHR 0xBB, CHR 0xD0, CHR 0xBD,
            CHR 0xD0, CHR 0xBE, CHR 0xD0, CHR 0xB5]
           @ '' ''
           @ [CHR 0xD1, CHR 0x80, CHR 0xD1, CHR 0x83, CHR 0xD0, CHR 0xBA, CHR 0xD0, CHR 0xBE,
            CHR 0xD0, CHR 0xB2, CHR 0xD0, CHR 0xBE, CHR 0xD0, CHR 0xB4, CHR 0xD1, CHR 0x81,
            CHR 0xD1, CHR 0x82, CHR 0xD0, CHR 0xB2, CHR 0xD0, CHR 0xBE]
           @ '' ''
           @ [CHR 0xD0, CHR 0xBF, CHR 0xD0, CHR 0xBE]
           @ '' ''
           @ [CHR 0xD1, CHR 0x80, CHR 0xD0, CHR 0xB0, CHR 0xD0, CHR 0xB7, CHR 0xD1, CHR 0x80,
            CHR 0xD0, CHR 0xB0, CHR 0xD0, CHR 0xB1, CHR 0xD0, CHR 0xBE, CHR 0xD1, CHR 0x82,
            CHR 0xD0, CHR 0xBA, CHR 0xD0, CHR 0xB5]
           @ '' ''
           @ [CHR 0xD0, CHR 0xB8, CHR 0xD0, CHR 0xBD, CHR 0xD1, CHR 0x81, CHR 0xD1, CHR 0x82,
            CHR 0xD1, CHR 0x80, CHR 0xD1, CHR 0x83, CHR 0xD0, CHR 0xBC, CHR 0xD0, CHR 0xB5,
            CHR 0xD0, CHR 0xBD, CHR 0xD1, CHR 0x82, CHR 0xD0, CHR 0xBE, CHR 0xD0, CHR 0xB2]
           @ '' ''
           @ [CHR 0xD0, CHR 0xB8]
           @ '' ''
           @ [CHR 0xD1, CHR 0x81, CHR 0xD0, CHR 0xBA, CHR 0xD1, CHR 0x80, CHR 0xD0, CHR 0xB8,
            CHR 0xD0, CHR 0xBF, CHR 0xD1, CHR 0x82, CHR 0xD0, CHR 0xBE, CHR 0xD0, CHR 0xB2]
           @ '' LinuxToys'')]),
      (''cli-mode'',
        [(''en'', ''Learn how to use LinuxToys CLI mode for automated installations''),
         (''pt'', ''Aprenda a usar o modo CLI do LinuxToys para instala''
           @ [CHR 0xC3, CHR 0xA7, CHR 0xC3, CHR 0xB5]
           @ ''es automatizadas''),
         (''es'', ''Aprende a usar el modo CLI de LinuxToys para instalaciones automatizadas''),
         (''fr'', ''Apprenez ''
           @ [CHR 0xC3, CHR 0xA0]
           @ '' utiliser le mode CLI de LinuxToys pour les installations automatis''
           @ [CHR 0xC3, CHR 0xA9]
           @ ''es''),
         (''de'', ''Erfahren Sie, wie Sie den LinuxToys CLI-Modus f''
           @ [CHR 0xC3, CHR 0xBC]
           @ ''r automatisierte Installationen verwenden''),
         (''nl'', ''Leer hoe je LinuxToys CLI-modus gebruikt voor geautomatiseerde installaties''),
         (''zh'', [CHR 0xE5, CHR 0xAD, CHR 0xA6, CHR 0xE4, CHR 0xB9, CHR 0xA0, CHR 0xE5, CHR 0xA6,
            CHR 0x82, CHR 0xE4, CHR 0xBD, CHR 0x95, CHR 0xE4, CHR 0xBD, CHR 0xBF, CHR 0xE7,
            CHR 0x94, CHR 0xA8]
           @ '' LinuxToys CLI ''
           @ [CHR 0xE6, CHR 0xA8, CHR 0xA1, CHR 0xE5, CHR 0xBC, CHR 0x8F, CHR 0xE8, CHR 0xBF,
            CHR 0x9B, CHR 0xE8, CHR 0xA1, CHR 0x8C, CHR 0xE8, CHR 0x87, CHR 0xAA, CHR 0xE5,
            CHR 0x8A, CHR 0xA8, CHR 0xE5, CHR 0x8C, CHR 0x96, CHR 0xE5, CHR 0xAE, CHR 0x89,
            CHR 0xE8, CHR 0xA3, CHR 0x85]),
         (''ja'', [CHR 0xE8, CHR 0x87, CHR 0xAA, CHR 0xE5, CHR 0x8B, CHR 0x95, CHR 0xE3, CHR 0x82,
            CHR 0xA4, CHR 0xE3, CHR 0x83, CHR 0xB3, CHR 0xE3, CHR 0x82, CHR 0xB9, CHR 0xE3,
            CHR 0x83, CHR 0x88, CHR 0xE3, CHR 0x83, CHR 0xBC, CHR 0xE3, CHR 0x83, CHR 0xAB,
            CHR 0xE7, CHR 0x94, CHR 0xA8, CHR 0xE3, CHR 0x81, CHR 0xAE]
           @ ''LinuxToys CLI''
           @ [CHR 0xE3, CHR 0x83, CHR 0xA2, CHR 0xE3, CHR 0x83, CHR 0xBC, CHR 0xE3, CHR 0x83,
            CHR 0x89, CHR 0xE3, CHR 0x81, CHR 0xAE, CHR 0xE4, CHR 0xBD, CHR 0xBF, CHR 0xE7,
            CHR 0x94, CHR 0xA8, CHR 0xE6, CHR 0x96, CHR 0xB9, CHR 0xE6, CHR 0xB3, CHR 0x95,
            CHR 0xE3, CHR 0x82, CHR 0x92, CHR 0xE5, CHR 0xAD, CHR 0xA6, CHR 0xE3, CHR 0x81,
            CHR 0xB6]),
         (''ru'', [CHR 0xD0, CHR 0x98, CHR 0xD0, CHR 0xB7, CHR 0xD1, CHR 0x83, CHR 0xD1, CHR 0x87,
            CHR 0xD0, CHR 0xB8, CHR 0xD1, CHR 0x82, CHR 0xD0, CHR 0xB5]
           @ '', ''
           @ [CHR 0xD0, CHR 0xBA, CHR 0xD0, CHR 0xB0, CHR 0xD0, CHR 0xBA]
           @ '' ''
           @ [CHR 0xD0, CHR 0xB8, CHR 0xD1, CHR 0x81, CHR 0xD0, CHR 0xBF, CHR 0xD0, CHR 0xBE,
            CHR 0xD0, CHR 0xBB, CHR 0xD1, CHR 0x8C, CHR 0xD0, CHR 0xB7, CHR 0xD0, CHR 0xBE,
            CHR 0xD0, CHR 0xB2, CHR 0xD0, CHR 0xB0, CHR 0xD1, CHR 0x82, CHR 0xD1, CHR 0x8C]
           @ '' ''
           @ [CHR 0xD1, CHR 0x80, CHR 0xD0, CHR 0xB5, CHR 0xD0, CHR 0xB6, CHR 0xD0, CHR 0xB8,
            CHR 0xD0, CHR 0xBC]
           @ '' CLI LinuxToys ''
           @ [CHR 0xD0, CHR 0xB4, CHR 0xD0, CHR 0xBB, CHR 0xD1, CHR 0x8F]
           @ '' ''
           @ [CHR 0xD0, CHR 0xB0, CHR 0xD0, CHR 0xB2, CHR 0xD1, CHR 0x82, CHR 0xD0, CHR 0xBE,
            CHR 0xD0, CHR 0xBC, CHR 0xD0, CHR 0xB0, CHR 0xD1, CHR 0x82, CHR 0xD0, CHR 0xB8,
            CHR 0xD1, CHR 0x87, CHR 0xD0, CHR 0xB5, CHR 0xD1, CHR 0x81, CHR 0xD0, CHR 0xBA,
            CHR 0xD0, CHR 0xB8, CHR 0xD1, CHR 0x85]
           @ '' ''
           @ [CHR 0xD1, CHR 0x83, CHR 0xD1, CHR 0x81, CHR 0xD1, CHR 0x82, CHR 0xD0, CHR 0xB0,
            CHR 0xD0, CHR 0xBD, CHR 0xD0, CHR 0xBE, CHR 0xD0, CHR 0xB2, CHR 0xD0, CHR 0xBE,
            CHR 0xD0, CHR 0xBA])]),
      (''knowledgebase'',
        [(''en'', ''Comprehensive guide to LinuxToys features and installation procedures''),
         (''pt'', ''Guia abrangente dos recursos e procedimentos de instala''
           @ [CHR 0xC3, CHR 0xA7, CHR 0xC3, CHR 0xA3]
           @ ''o do LinuxToys''),
         (''es'', ''Gu''
           @ [CHR 0xC3, CHR 0xAD]
           @ ''a completa de caracter''
           @ [CHR 0xC3, CHR 0xAD]
           @ ''sticas y procedimientos de instalaci''
           @ [CHR 0xC3, CHR 0xB3]
           @ ''n de LinuxToys''),
         (''fr'', ''Guide complet des fonctionnalit''
           @ [CHR 0xC3, CHR 0xA9]
           @ ''s et proc''
           @ [CHR 0xC3, CHR 0xA9]
           @ ''dures d'installation de LinuxToys''),
         (''de'', ''Umfassender Leitfaden zu LinuxToys-Funktionen und Installationsverfahren''),
         (''nl'', ''Uitgebreide gids voor LinuxToys functies en installatieprocedures''),
         (''zh'', ''LinuxToys ''
           @ [CHR 0xE5, CHR 0x8A, CHR 0x9F, CHR 0xE8, CHR 0x83, CHR 0xBD, CHR 0xE5, CHR 0x92,
            CHR 0x8C, CHR 0xE5, CHR 0xAE, CHR 0x89, CHR 0xE8, CHR 0xA3, CHR 0x85, CHR 0xE7,
            CHR 0xA8, CHR 0x8B, CHR 0xE5, CHR 0xBA, CHR 0x8F, CHR 0xE7, CHR 0x9A, CHR 0x84,
            CHR 0xE7, CHR 0xBB, CHR 0xBC, CHR 0xE5, CHR 0x90, CHR 0x88, CHR 0xE6, CHR 0x8C,
            CHR 0x87, CHR 0xE5, CHR 0x8D, CHR 0x97]),
         (''ja'', ''LinuxToys''
           @ [CHR 0xE3, CHR 0x81, CHR 0xAE, CHR 0xE6, CHR 0xA9, CHR 0x9F, CHR 0xE8, CHR 0x83,
            CHR 0xBD, CHR 0xE3, CHR 0x81, CHR 0xA8, CHR 0xE3, CHR 0x82, CHR 0xA4, CHR 0xE3,
            CHR 0x83, CHR 0xB3, CHR 0xE3, CHR 0x82, CHR 0xB9, CHR 0xE3, CHR 0x83, CHR 0x88,
            CHR 0xE3, CHR 0x83, CHR 0xBC, CHR 0xE3, CHR 0x83, CHR 0xAB, CHR 0xE6, CHR 0x89,
            CHR 0x8B, CHR 0xE9, CHR 0xA0, CHR 0x86, CHR 0xE3, CHR 0x81, CHR 0xAE, CHR 0xE5,
            CHR 0x8C, CHR 0x85, CHR 0xE6, CHR 0x8B, CHR 0xAC, CHR 0xE7, CHR 0x9A, CHR 0x84,
            CHR 0xE3, CHR 0x82, CHR 0xAC, CHR 0xE3, CHR 0x82, CHR 0xA4, CHR 0xE3, CHR 0x83,
            CHR 0x89]),
         (''ru'', [CHR 0xD0, CHR 0x9F, CHR 0xD0, CHR 0xBE, CHR 0xD0, CHR 0xBB, CHR 0xD0, CHR 0xBD,
            CHR 0xD0, CHR 0xBE, CHR 0xD0, CHR 0xB5]
           @ '' ''
           @ [CHR 0xD1, CHR 0x80, CHR 0xD1, CHR 0x83, CHR 0xD0, CHR 0xBA, CHR 0xD0, CHR 0xBE,
            CHR 0xD0, CHR 0xB2, CHR 0xD0, CHR 0xBE, CHR 0xD0, CHR 0xB4, CHR 0xD1, CHR 0x81,
            CHR 0xD1, CHR 0x82, CHR 0xD0, CHR 0xB2, CHR 0xD0, CHR 0xBE]
           @ '' ''
           @ [CHR 0xD0, CHR 0xBF, CHR 0xD0, CHR 0xBE]
           @ '' ''
           @ [CHR 0xD1, CHR 0x84, CHR 0xD1, CHR 0x83, CHR 0xD0, CHR 0xBD, CHR 0xD0, CHR 0xBA,
            CHR 0xD1, CHR 0x86, CHR 0xD0, CHR 0xB8, CHR 0xD1, CHR 0x8F, CHR 0xD0, CHR 0xBC]
           @ '' ''
           @ [CHR 0xD0, CHR 0xB8]
           @ '' ''
           @ [CHR 0xD0, CHR 0xBF, CHR 0xD1, CHR 0x80, CHR 0xD0, CHR 0xBE, CHR 0xD1, CHR 0x86,
            CHR 0xD0, CHR 0xB5, CHR 0xD0, CHR 0xB4, CHR 0xD1, CHR 0x83, CHR 0xD1, CHR 0x80,
            CHR 0xD0, CHR 0xB0, CHR 0xD0, CHR 0xBC]
           @ '' ''
           @ [CHR 0xD1, CHR 0x83, CHR 0xD1, CHR 0x81, CHR 0xD1, CHR 0x82, CHR 0xD0, CHR 0xB0,
            CHR 0xD0, CHR 0xBD, CHR 0xD0, CHR 0xBE, CHR 0xD0, CHR 0xB2, CHR 0xD0, CHR 0xBA,
            CHR 0xD0, CHR 0xB8]
           @ '' LinuxToys'')]),
      (''credits'',
        [(''en'', ''Credits and acknowledgments for all the amazing developers who made LinuxToys features possible''),
         (''pt'', ''Cr''
           @ [CHR 0xC3, CHR 0xA9]
           @ ''ditos e reconhecimentos para todos os incr''
           @ [CHR 0xC3, CHR 0xAD]
           @ ''veis desenvolvedores que tornaram poss''
           @ [CHR 0xC3, CHR 0xAD]
           @ ''veis os recursos do LinuxToys''),
         (''es'', ''Cr''
           @ [CHR 0xC3, CHR 0xA9]
           @ ''ditos y reconocimientos para todos los incre''
           @ [CHR 0xC3, CHR 0xAD]
           @ ''bles desarrolladores que hicieron posibles las caracter''
           @ [CHR 0xC3, CHR 0xAD]
           @ ''sticas de LinuxToys''),
         (''fr'', ''Cr''
           @ [CHR 0xC3, CHR 0xA9]
           @ ''dits et remerciements pour tous les incroyables d''
           @ [CHR 0xC3, CHR 0xA9]
           @ ''veloppeurs qui ont rendu possibles les fonctionnalit''
           @ [CHR 0xC3, CHR 0xA9]
           @ ''s de LinuxToys''),
         (''de'', ''Credits und Danksagungen an alle erstaunlichen Entwickler, die die LinuxToys-Features m''
           @ [CHR 0xC3, CHR 0xB6]
           @ ''glich gemacht haben''),
         (''nl'', ''Credits en dankbetuigingen voor alle geweldige ontwikkelaars die LinuxToys functies mogelijk maakten''),
         (''zh'', [CHR 0xE5, CHR 0x90, CHR 0x91, CHR 0xE6, CHR 0x89, CHR 0x80, CHR 0xE6, CHR 0x9C,
            CHR 0x89, CHR 0xE4, CHR 0xBD, CHR 0xBF]
           @ ''LinuxToys''
           @ [CHR 0xE5, CHR 0x8A, CHR 0x9F, CHR 0xE8, CHR 0x83, CHR 0xBD, CHR 0xE6, CHR 0x88,
            CHR 0x90, CHR 0xE4, CHR 0xB8, CHR 0xBA, CHR 0xE5, CHR 0x8F, CHR 0xAF, CHR 0xE8,
            CHR 0x83, CHR 0xBD, CHR 0xE7, CHR 0x9A, CHR 0x84, CHR 0xE4, CHR 0xBC, CHR 0x98,
            CHR 0xE7, CHR 0xA7, CHR 0x80, CHR 0xE5, CHR 0xBC, CHR 0x80, CHR 0xE5, CHR 0x8F,
            CHR 0x91, CHR 0xE8, CHR 0x80, CHR 0x85, CHR 0xE8, CHR 0x87, CHR 0xB4, CHR 0xE8,
            CHR 0xB0, CHR 0xA2, CHR 0xE5, CHR 0x92, CHR 0x8C, CHR 0xE9, CHR 0xB8, CHR 0xA3,
            CHR 0xE8, CHR 0xB0, CHR 0xA2]),
         (''ja'', ''LinuxToys''
           @ [CHR 0xE3, CHR 0x81, CHR 0xAE, CHR 0xE6, CHR 0xA9, CHR 0x9F, CHR 0xE8, CHR 0x83,
            CHR 0xBD, CHR 0xE3, CHR 0x82, CHR 0x92, CHR 0xE5, CHR 0x8F, CHR 0xAF, CHR 0xE8,
            CHR 0x83, CHR 0xBD, CHR 0xE3, CHR 0x81, CHR 0xAB, CHR 0xE3, CHR 0x81, CHR 0x97,
            CHR 0xE3, CHR 0x81, CHR 0xA6, CHR 0xE3, CHR 0x81, CHR 0x8F, CHR 0xE3, CHR 0x82,
            CHR 0x8C, CHR 0xE3, CHR 0x81, CHR 0x9F, CHR 0xE5, CHR 0x85, CHR 0xA8, CHR 0xE3,
            CHR 0x81, CHR 0xA6, CHR 0xE3, CHR 0x81, CHR 0xAE, CHR 0xE7, CHR 0xB4, CHR 0xA0,
            CHR 0xE6, CHR 0x99, CHR 0xB4, CHR 0xE3, CHR 0x82, CHR 0x89, CHR 0xE3, CHR 0x81,
            CHR 0x97, CHR 0xE3, CHR 0x81, CHR 0x84, CHR 0xE9, CHR 0x96, CHR 0x8B, CHR 0xE7,
            CHR 0x99, CHR 0xBA, CHR 0xE8, CHR 0x80, CHR 0x85, CHR 0xE3, CHR 0x81, CHR 0xB8,
            CHR 0xE3, CHR 0x81, CHR 0xAE, CHR 0xE8, CHR 0xAC, CHR 0x9D, CHR 0xE8, CHR 0xBE,
            CHR 0x9E, CHR 0xE3, CHR 0x81, CHR 0xA8, CHR 0xE6, CHR 0x84, CHR 0x9F, CHR 0xE8,
            CHR 0xAC, CHR 0x9D]),
         (''ru'', [CHR 0xD0, CHR 0x91, CHR 0xD0, CHR 0xBB, CHR 0xD0, CHR 0xB0, CHR 0xD0, CHR 0xB3,
            CHR 0xD0, CHR 0xBE, CHR 0xD0, CHR 0xB4, CHR 0xD0, CHR 0xB0, CHR 0xD1, CHR 0x80,
            CHR 0xD0, CHR 0xBD, CHR 0xD0, CHR 0xBE, CHR 0xD1, CHR 0x81, CHR 0xD1, CHR 0x82,
            CHR 0xD0, CHR 0xB8]
           @ '' ''
           @ [CHR 0xD0, CHR 0xB8]
           @ '' ''
           @ [CHR 0xD0, CHR 0xBF, CHR 0xD1, CHR 0x80, CHR 0xD0, CHR 0xB8, CHR 0xD0, CHR 0xB7,
            CHR 0xD0, CHR 0xBD, CHR 0xD0, CHR 0xB0, CHR 0xD0, CHR 0xBD, CHR 0xD0, CHR 0xB8,
            CHR 0xD0, CHR 0xB5]
           @ '' ''
           @ [CHR 0xD0, CHR 0xB2, CHR 0xD1, CHR 0x81, CHR 0xD0, CHR 0xB5, CHR 0xD0, CHR 0xBC]
           @ '' ''
           @ [CHR 0xD1, CHR 0x83, CHR 0xD0, CHR 0xB4, CHR 0xD0, CHR 0xB8, CHR 0xD0, CHR 0xB2,
            CHR 0xD0, CHR 0xB8, CHR 0xD1, CHR 0x82, CHR 0xD0, CHR 0xB5, CHR 0xD0, CHR 0xBB,
            CHR 0xD1, CHR 0x8C, CHR 0xD0, CHR 0xBD, CHR 0xD1, CHR 0x8B, CHR 0xD0, CHR 0xBC]
           @ '' ''
           @ [CHR 0xD1, CHR 0x80, CHR 0xD0, CHR 0xB0, CHR 0xD0, CHR 0xB7, CHR 0xD1, CHR 0x80,
            CHR 0xD0, CHR 0xB0, CHR 0xD0, CHR 0xB1, CHR 0xD0, CHR 0xBE, CHR 0xD1, CHR 0x82,
            CHR 0xD1, CHR 0x87, CHR 0xD0, CHR 0xB8, CHR 0xD0, CHR 0xBA, CHR 0xD0, CHR 0xB0,
            CHR 0xD0, CHR 0xBC]
           @ '', ''
           @ [CHR 0xD0, CHR 0xBA, CHR 0xD0, CHR 0xBE, CHR 0xD1, CHR 0x82, CHR 0xD0, CHR 0xBE,
            CHR 0xD1, CHR 0x80, CHR 0xD1, CHR 0x8B, CHR 0xD0, CHR 0xB5]
           @ '' ''
           @ [CHR 0xD1, CHR 0x81, CHR 0xD0, CHR 0xB4, CHR 0xD0, CHR 0xB5, CHR 0xD0, CHR 0xBB,
            CHR 0xD0, CHR 0xB0, CHR 0xD0, CHR 0xBB, CHR 0xD0, CHR 0xB8]
           @ '' ''
           @ [CHR 0xD0, CHR 0xB2, CHR 0xD0, CHR 0xBE, CHR 0xD0, CHR 0xB7, CHR 0xD0, CHR 0xBC,
            CHR 0xD0, CHR 0xBE, CHR 0xD0, CHR 0xB6, CHR 0xD0, CHR 0xBD, CHR 0xD1, CHR 0x8B,
            CHR 0xD0, CHR 0xBC, CHR 0xD0, CHR 0xB8]
           @ '' ''
           @ [CHR 0xD1, CHR 0x84, CHR 0xD1, CHR 0x83, CHR 0xD0, CHR 0xBD, CHR 0xD0, CHR 0xBA,
            CHR 0xD1, CHR 0x86, CHR 0xD0, CHR 0xB8, CHR 0xD0, CHR 0xB8]
           @ '' LinuxToys'')])]"

text \<open>
  \<open>table[ctype]?.[language]\<close>, for a content type and a language that do not name a
  member of \<open>Object.prototype\<close>: the read then finds an own entry or nothing.
\<close>

definition entry :: "(string \<times> (string \<times> string) list) list \<Rightarrow> string \<Rightarrow> string \<Rightarrow> string option" where
  "entry table ctype language =
     (case map_of table ctype of None \<Rightarrow> None | Some row \<Rightarrow> map_of row language)"

text \<open>\<open>a || b\<close> and \<open>a || 'default'\<close> on values that are strings or \<open>undefined\<close>.\<close>

definition or_else :: "string option \<Rightarrow> string option \<Rightarrow> string option" where
  "or_else a b = (case a of None \<Rightarrow> b | Some v \<Rightarrow> if v = [] then b else Some v)"

definition or_default :: "string option \<Rightarrow> string \<Rightarrow> string" where
  "or_default a dflt = (case a of None \<Rightarrow> dflt | Some v \<Rightarrow> if v = [] then dflt else v)"

definition meta_title :: "string \<Rightarrow> string \<Rightarrow> string" where
  "meta_title ctype language =
     or_default (or_else (entry titles ctype language) (entry titles ctype ''en'')) ''LinuxToys''"

definition meta_description :: "string \<Rightarrow> string \<Rightarrow> string" where
  "meta_description ctype language =
     or_default (or_else (entry descriptions ctype language) (entry descriptions ctype ''en''))
       ''LinuxToys documentation''"

definition updatePageMeta :: "string \<Rightarrow> string \<Rightarrow> page \<Rightarrow> page" where
  "updatePageMeta ctype language p =
     (let title = meta_title ctype language;
          p1 = p\<lparr>documentTitle := title\<rparr>;
          p2 = p1\<lparr>pageTitle := title\<rparr>;
          description = meta_description ctype language;
          p3 = p2\<lparr>pageDescription := description\<rparr>;
          p4 = p3\<lparr>ogDescription := description\<rparr>;
          p5 = p4\<lparr>twitterDescription := description\<rparr>;
          p6 = p5\<lparr>ogTitle := title\<rparr>
      in p6\<lparr>twitterTitle := title\<rparr>)"

definition showError :: "page \<Rightarrow> page" where
  "showError p = p\<lparr>loadingHidden := True, contentHidden := True, errorHidden := False\<rparr>"

text \<open>
  \<open>loadContent\<close>. \<open>marked\<close> is the markdown renderer, \<open>None\<close> when it throws. The template
  literal of the URL prints a missing content type as \<open>null\<close>.
\<close>

definition loadContent ::
  "(string \<Rightarrow> string fetch_result) \<Rightarrow> (string \<Rightarrow> string option) \<Rightarrow> manager \<Rightarrow> loader \<Rightarrow> page \<Rightarrow> page" where
  "loadContent net marked tm l p =
     (let ctype = (case contentType l of None \<Rightarrow> ''null'' | Some c \<Rightarrow> c);
          p1 = p\<lparr>loadingHidden := False, contentHidden := True, errorHidden := True\<rparr>;
          lang = currentLang tm
      in case fetchMarkdownContent net ctype lang p1 of
           (None, p2) \<Rightarrow> showError p2
         | (Some text, p2) \<Rightarrow>
             if text = [] then showError p2
             else (case marked text of
                     None \<Rightarrow> showError p2
                   | Some htmlContent \<Rightarrow>
                       (let p3 = p2\<lparr>markdownContent := htmlContent\<rparr>;
                            p4 = updatePageMeta ctype lang p3;
                            p5 = p4\<lparr>loadingHidden := True, contentHidden := False\<rparr>
                        in p5\<lparr>scrollPosition := (0, 0)\<rparr>)))"

definition content_init ::
  "(string \<Rightarrow> string fetch_result) \<Rightarrow> (string \<Rightarrow> string option) \<Rightarrow> manager \<Rightarrow> loader \<times> page
     \<Rightarrow> loader \<times> page" where
  "content_init net marked tm s =
     (case s of (l, p) \<Rightarrow>
        (let l1 = l\<lparr>contentType := or_else (contentParam p) (getContentTypeFromPath (pathname p))\<rparr>;
             p1 = (if contentType l1 \<noteq> None \<and> contentType l1 \<noteq> Some []
                   then loadContent net marked tm l1 p
                   else showError p)
         in (l1, p1\<lparr>contentLoaderSet := True\<rparr>)))"

subsection \<open>Outcomes named in the specification\<close>

text \<open>
  A load fails when the \<open>try\<close> block throws: the request is rejected, the response is not
  ok, or its body cannot be read.
\<close>

definition fetch_failed :: "'a fetch_result \<Rightarrow> bool" where
  "fetch_failed r = (case r of Response True (Some v) \<Rightarrow> False | _ \<Rightarrow> True)"

text \<open>The text that one attempt of the document source yields, if any.\<close>

definition attempt :: "string fetch_result \<Rightarrow> string option" where
  "attempt r = (case r of Response True body \<Rightarrow> body | _ \<Rightarrow> None)"

text \<open>
  The resolution policy in the specification's words: the stored preference when it is
  supported; otherwise the primary subtag of the first reported language whose primary
  subtag is supported; otherwise the fallback language.
\<close>

definition primary_subtag :: "string \<Rightarrow> string" where
  "primary_subtag tag = toLowerCase (takeWhile (\<lambda>c. c \<noteq> CHR ''-'') tag)"

definition reported_languages :: "navigator \<Rightarrow> string list" where
  "reported_languages nav =
     List.map_filter id
       ([nav_language nav]
        @ (case nav_languages nav of None \<Rightarrow> [] | Some ls \<Rightarrow> map Some ls)
        @ [nav_userLanguage nav, nav_browserLanguage nav, nav_systemLanguage nav])"

definition resolution_policy :: "string list \<Rightarrow> string \<Rightarrow> string option \<Rightarrow> string list \<Rightarrow> string" where
  "resolution_policy supported fallback stored reported =
     (let by_browser =
            (case find (\<lambda>tag. primary_subtag tag \<in> set supported) reported of
               Some tag \<Rightarrow> primary_subtag tag
             | None \<Rightarrow> fallback)
      in case stored of
           Some saved \<Rightarrow> if saved \<in> set supported then saved else by_browser
         | None \<Rightarrow> by_browser)"

text \<open>
  Every cached bundle is the one that its own language's translation source serves.
\<close>

definition cache_sound :: "(string \<Rightarrow> translation_bundle fetch_result) \<Rightarrow> manager \<Rightarrow> bool" where
  "cache_sound net m =
     (\<forall>lang b. translations_cache m lang = Some b \<longrightarrow>
        net (translations_url lang) = Response True (Some b))"

text \<open>
  Language codes that keep the cache a plain dictionary: neither the fallback language
  nor a supported language names a member of \<open>Object.prototype\<close>.
\<close>

definition plain_languages :: "manager \<Rightarrow> bool" where
  "plain_languages m \<longleftrightarrow>
     \<not> prototype_member (fallbackLang m)
     \<and> list_all (\<lambda>lang. \<not> prototype_member lang) (supportedLanguages m)"

text \<open>
  The callback of \<open>updatePageTranslations\<close> throws on an element: its key is not
  \<open>toggle-button\<close>, the bundle does not own it, and it names a member of
  \<open>Object.prototype\<close>.
\<close>

definition throws_on :: "translation_bundle \<Rightarrow> element \<Rightarrow> bool" where
  "throws_on b el \<longleftrightarrow>
     el_key el \<noteq> ''toggle-button'' \<and> b (el_key el) = None \<and> prototype_member (el_key el)"

text \<open>What the ordinary branch of \<open>updatePageTranslations\<close> writes for a translation.\<close>

definition inserted :: "string \<Rightarrow> content" where
  "inserted translation =
     (if str_includes translation ''<a href'' then Markup translation else PlainText translation)"

subsection \<open>Example states\<close>

definition en_bundle :: translation_bundle where
  "en_bundle =
     [''title'' \<mapsto> ''Welcome'',
      ''subtitle'' \<mapsto> ''Read the <a href=docs>docs</a>'',
      ''note'' \<mapsto> ''Use <b>bold</b> text'',
      ''toggle-button'' \<mapsto> ''Show Tools'']"

definition pt_bundle :: translation_bundle where
  "pt_bundle = [''title'' \<mapsto> ''Bem-vindo'']"

text \<open>A bundle whose texts for the toggle button contain an anchor.\<close>

definition toggle_bundle :: translation_bundle where
  "toggle_bundle =
     [''toggle-button'' \<mapsto> ''<a href=tools>Show tools</a>'',
      ''toggle-button-less'' \<mapsto> ''<a href=tools>Show less</a>'']"

definition example_net :: "string \<Rightarrow> translation_bundle fetch_result" where
  "example_net url =
     (if url = ''translations/en.json'' then Response True (Some en_bundle)
      else if url = ''translations/pt.json'' then Response True (Some pt_bundle)
      else Response False None)"

definition en_only_net :: "string \<Rightarrow> translation_bundle fetch_result" where
  "en_only_net url =
     (if url = ''translations/en.json'' then Response True (Some en_bundle)
      else Response False None)"

definition offline_net :: "string \<Rightarrow> translation_bundle fetch_result" where
  "offline_net url = Rejected"

definition example_elements :: "element list" where
  "example_elements =
     [\<lparr>el_key = ''title'', el_title = Some (Attr ''Title''), el_content = PlainText ''Title'',
       el_nextExpanded = False\<rparr>,
      \<lparr>el_key = ''subtitle'', el_title = None, el_content = PlainText ''Subtitle'',
       el_nextExpanded = False\<rparr>,
      \<lparr>el_key = ''toggle-button'', el_title = None, el_content = PlainText ''Tools'',
       el_nextExpanded = True\<rparr>]"

definition example_browser :: browser where
  "example_browser =
     \<lparr>fetchLog = [],
      navigator =
        \<lparr>nav_language = Some ''fr-FR'',
         nav_languages = Some [''fr-FR'', ''pt-BR'', ''en-US''],
         nav_userLanguage = None, nav_browserLanguage = None, nav_systemLanguage = None\<rparr>,
      documentLang = ''en'',
      elements = example_elements,
      langButtons =
        [''lang-en'' \<mapsto> \<lparr>backgroundColor = ''#374151'', color = ''#d1d5db''\<rparr>,
         ''lang-pt'' \<mapsto> \<lparr>backgroundColor = ''#374151'', color = ''#d1d5db''\<rparr>],
      clickListeners = [],
      toolsLoader = True,
      toolsLoaderCalls = [],
      dispatched = [],
      preferredLanguage = None\<rparr>"

text \<open>A manager whose English bundle is \<open>toggle_bundle\<close>.\<close>

definition toggle_manager :: manager where
  "toggle_manager = constructor\<lparr>translations_cache := [''en'' \<mapsto> toggle_bundle]\<rparr>"

text \<open>A visitor whose browser reports English and who has stored Portuguese.\<close>

definition returning_browser :: browser where
  "returning_browser =
     example_browser
       \<lparr>navigator :=
          \<lparr>nav_language = Some ''en'', nav_languages = Some [''en''],
           nav_userLanguage = None, nav_browserLanguage = None, nav_systemLanguage = None\<rparr>,
        preferredLanguage := Some ''pt''\<rparr>"


text \<open>The state after one load of the English bundle.\<close>

definition english_loaded :: "manager \<times> browser" where
  "english_loaded = snd (loadTranslations example_net ''en'' (constructor, example_browser))"



definition example_docs :: "string \<Rightarrow> string fetch_result" where
  "example_docs url =
     (if url = ''content/en/handbook.md'' then Response True (Some ''# Handbook'')
      else Response False None)"

definition example_marked :: "string \<Rightarrow> string option" where
  "example_marked text = Some (''<p>'' @ text @ ''</p>'')"

definition example_page :: page where
  "example_page =
     \<lparr>fetchLog = [],
      contentParam = None,
      pathname = ''/index.html'',
      loadingHidden = True, contentHidden = True, errorHidden = True,
      markdownContent = [],
      documentTitle = ''LinuxToys'', pageTitle = [], pageDescription = [],
      ogDescription = [], twitterDescription = [], ogTitle = [], twitterTitle = [],
      scrollPosition = (0, 120),
      contentLoaderSet = False\<rparr>"

section \<open>Properties\<close>

subsection \<open>Loading a bundle\<close>

lemma failed_or_ok:
  "fetch_failed r \<or> (\<exists>json. r = Response True (Some json))"
  by (auto simp: fetch_failed_def split: fetch_result.splits option.splits bool.splits)

lemma loadTranslations_try_ok:
  "net (translations_url language) = Response True (Some json) \<Longrightarrow>
   loadTranslations_try net language (m, w) =
     (Inr json, m\<lparr>translations_cache := (translations_cache m)(language \<mapsto> json)\<rparr>,
      w\<lparr>fetchLog := fetchLog w @ [translations_url language]\<rparr>)"
  by (simp add: loadTranslations_try_def fetch_def)

lemma loadTranslations_try_failed:
  "fetch_failed (net (translations_url language)) \<Longrightarrow>
   \<exists>err. loadTranslations_try net language (m, w) =
     (Inl err, m, w\<lparr>fetchLog := fetchLog w @ [translations_url language]\<rparr>)"
  by (auto simp: loadTranslations_try_def fetch_def fetch_failed_def
           split: fetch_result.splits option.splits bool.splits)

lemma loadTranslations_ok:
  "net (translations_url language) = Response True (Some json) \<Longrightarrow>
   loadTranslations net language (m, w) =
     (Inr json, m\<lparr>translations_cache := (translations_cache m)(language \<mapsto> json)\<rparr>,
      w\<lparr>fetchLog := fetchLog w @ [translations_url language]\<rparr>)"
  by (simp add: loadTranslations_try_ok)

lemma loadTranslations_failed_fallback:
  assumes "fetch_failed (net (translations_url (fallbackLang m)))"
  shows "loadTranslations net (fallbackLang m) (m, w) =
     (Inr Map.empty, m, w\<lparr>fetchLog := fetchLog w @ [translations_url (fallbackLang m)]\<rparr>)"
  using loadTranslations_try_failed[of net "fallbackLang m" m w] assms by auto

lemma loadTranslations_failed_other:
  assumes "fetch_failed (net (translations_url language))" "language \<noteq> fallbackLang m"
  shows "loadTranslations net language (m, w) =
     loadTranslations net (fallbackLang m)
       (m, w\<lparr>fetchLog := fetchLog w @ [translations_url language]\<rparr>)"
  using loadTranslations_try_failed[of net language m w] assms by auto

declare loadTranslations.simps [simp del]

text \<open>The four ways a call of \<open>loadTranslations\<close> can go.\<close>

lemma loadTranslations_cases:
  obtains
    (ok) json where "net (translations_url language) = Response True (Some json)"
      "loadTranslations net language (m, w) =
        (Inr json, m\<lparr>translations_cache := (translations_cache m)(language \<mapsto> json)\<rparr>,
         w\<lparr>fetchLog := fetchLog w @ [translations_url language]\<rparr>)"
  | (empty) "fetch_failed (net (translations_url language))" "language = fallbackLang m"
      "loadTranslations net language (m, w) =
        (Inr Map.empty, m, w\<lparr>fetchLog := fetchLog w @ [translations_url language]\<rparr>)"
  | (fallback_ok) json where "fetch_failed (net (translations_url language))"
      "language \<noteq> fallbackLang m"
      "net (translations_url (fallbackLang m)) = Response True (Some json)"
      "loadTranslations net language (m, w) =
        (Inr json, m\<lparr>translations_cache := (translations_cache m)(fallbackLang m \<mapsto> json)\<rparr>,
         w\<lparr>fetchLog := fetchLog w @ [translations_url language, translations_url (fallbackLang m)]\<rparr>)"
  | (both_failed) "fetch_failed (net (translations_url language))"
      "language \<noteq> fallbackLang m"
      "fetch_failed (net (translations_url (fallbackLang m)))"
      "loadTranslations net language (m, w) =
        (Inr Map.empty, m,
         w\<lparr>fetchLog := fetchLog w @ [translations_url language, translations_url (fallbackLang m)]\<rparr>)"
proof (cases "fetch_failed (net (translations_url language))")
  case False
  then obtain json where "net (translations_url language) = Response True (Some json)"
    using failed_or_ok by blast
  then show ?thesis using ok loadTranslations_ok by blast
next
  case failed: True
  show ?thesis
  proof (cases "language = fallbackLang m")
    case True
    then show ?thesis using failed empty loadTranslations_failed_fallback by metis
  next
    case other: False
    have step: "loadTranslations net language (m, w) =
     loadTranslations net (fallbackLang m)
       (m, w\<lparr>fetchLog := fetchLog w @ [translations_url language]\<rparr>)"
      using loadTranslations_failed_other[of net language m w] failed other by blast
    show ?thesis
    proof (cases "fetch_failed (net (translations_url (fallbackLang m)))")
      case True
      have "loadTranslations net language (m, w) =
        (Inr Map.empty, m,
         w\<lparr>fetchLog := fetchLog w @ [translations_url language, translations_url (fallbackLang m)]\<rparr>)"
        by (simp add: step loadTranslations_failed_fallback True)
      then show ?thesis using both_failed failed other True by blast
    next
      case False
      then obtain json where j: "net (translations_url (fallbackLang m)) = Response True (Some json)"
        using failed_or_ok by blast
      have "loadTranslations net language (m, w) =
        (Inr json, m\<lparr>translations_cache := (translations_cache m)(fallbackLang m \<mapsto> json)\<rparr>,
         w\<lparr>fetchLog := fetchLog w @ [translations_url language, translations_url (fallbackLang m)]\<rparr>)"
        by (simp add: step loadTranslations_ok j)
      then show ?thesis using fallback_ok failed other j by blast
    qed
  qed
qed



text \<open>The example source that serves only the English bundle, asked for Portuguese.\<close>

lemma en_only_load_pt:
  assumes "fallbackLang m = ''en''"
  shows "loadTranslations en_only_net ''pt'' (m, w) =
     (Inr en_bundle,
      m\<lparr>translations_cache := (translations_cache m)(''en'' \<mapsto> en_bundle)\<rparr>,
      w\<lparr>fetchLog := fetchLog w @ [''translations/pt.json'', ''translations/en.json'']\<rparr>)"
proof -
  have f: "fetch_failed (en_only_net (translations_url ''pt''))"
    by (simp add: fetch_failed_def en_only_net_def translations_url_def)
  have o: "en_only_net (translations_url ''en'') = Response True (Some en_bundle)"
    by (simp add: en_only_net_def translations_url_def)
  have "loadTranslations en_only_net ''pt'' (m, w) =
     loadTranslations en_only_net ''en'' (m, w\<lparr>fetchLog := fetchLog w @ [translations_url ''pt'']\<rparr>)"
    using loadTranslations_failed_other[of en_only_net "''pt''" m w] f assms by simp
  then show ?thesis
    by (simp add: loadTranslations_ok o assms) (simp add: translations_url_def)
qed

subsection \<open>The loop over the elements\<close>

lemma updateElement_throws:
  "fst (updateElement b el) = (if throws_on b el then Inl TypeError else Inr ())"
  by (auto simp: updateElement_def throws_on_def get_property_def Let_def split: option.splits)

lemma updateElement_key [simp]: "el_key (snd (updateElement b el)) = el_key el"
  by (simp add: updateElement_def updateToggleButton_def get_property_def Let_def
      split: option.splits)

lemma updateElement_nextExpanded [simp]:
  "el_nextExpanded (snd (updateElement b el)) = el_nextExpanded el"
  by (simp add: updateElement_def updateToggleButton_def get_property_def Let_def
      split: option.splits)

lemma length_forEach_update [simp]: "length (snd (forEach_update b els)) = length els"
  by (induction els) (auto simp: case_prod_beta split: sum.splits)

lemma forEach_update_no_throw:
  "\<forall>el \<in> set els. \<not> throws_on b el \<Longrightarrow>
   forEach_update b els = (Inr (), map (\<lambda>el. snd (updateElement b el)) els)"
proof (induction els)
  case Nil
  then show ?case by simp
next
  case (Cons el els)
  then have "fst (updateElement b el) = Inr ()"
    by (simp add: updateElement_throws)
  then obtain el' where "updateElement b el = (Inr (), el')"
    by (cases "updateElement b el") auto
  then show ?case using Cons by simp
qed

lemma forEach_update_nth:
  "i < length els \<Longrightarrow> \<forall>j < i. \<not> throws_on b (els ! j) \<Longrightarrow>
   snd (forEach_update b els) ! i = snd (updateElement b (els ! i))"
proof (induction els arbitrary: i)
  case Nil
  then show ?case by simp
next
  case (Cons el els)
  show ?case
  proof (cases i)
    case 0
    then show ?thesis by (auto simp: case_prod_beta split: sum.splits)
  next
    case (Suc k)
    then have "\<not> throws_on b el" using Cons.prems(2) by auto
    then have "fst (updateElement b el) = Inr ()"
      by (simp add: updateElement_throws)
    then obtain el' where el': "updateElement b el = (Inr (), el')"
      by (cases "updateElement b el") auto
    have "\<forall>j < k. \<not> throws_on b (els ! j)"
      using Cons.prems(2) Suc by auto
    moreover have "k < length els" using Cons.prems(1) Suc by simp
    ultimately have "snd (forEach_update b els) ! k = snd (updateElement b (els ! k))"
      by (rule Cons.IH[rotated])
    then show ?thesis using Suc el' by (simp add: case_prod_beta)
  qed
qed


subsection \<open>What the operations leave alone\<close>

lemma fetchLog_updateLanguageButtons [simp]:
  "fetchLog (updateLanguageButtons m w) = fetchLog w"
  by (simp add: updateLanguageButtons_def)

lemma fetchLog_setupLanguageSwitchers [simp]:
  "fetchLog (setupLanguageSwitchers m w) = fetchLog w"
  by (simp add: setupLanguageSwitchers_def)

lemma updatePageTranslations_frame [simp]:
  "fetchLog (snd (updatePageTranslations m w)) = fetchLog w"
  "toolsLoader (snd (updatePageTranslations m w)) = toolsLoader w"
  "toolsLoaderCalls (snd (updatePageTranslations m w)) = toolsLoaderCalls w"
  "dispatched (snd (updatePageTranslations m w)) = dispatched w"
  "langButtons (snd (updatePageTranslations m w)) = langButtons w"
  "length (elements (snd (updatePageTranslations m w))) = length (elements w)"
  by (simp_all add: updatePageTranslations_def case_prod_beta split: translations_value.splits)

lemma updatePageTranslations_bundle:
  "currentTranslations m = Bundle b \<Longrightarrow>
   updatePageTranslations m w =
     (fst (forEach_update b (elements w)), w\<lparr>elements := snd (forEach_update b (elements w))\<rparr>)"
  by (simp add: updatePageTranslations_def case_prod_beta)

lemma updatePageTranslations_no_throw:
  "currentTranslations m = Bundle b \<Longrightarrow> \<forall>el \<in> set (elements w). \<not> throws_on b el \<Longrightarrow>
   updatePageTranslations m w =
     (Inr (), w\<lparr>elements := map (\<lambda>el. snd (updateElement b el)) (elements w)\<rparr>)"
  by (simp add: updatePageTranslations_bundle forEach_update_no_throw)

lemma setLanguage_apply_frame:
  "fst (snd (setLanguage_apply language (m, w))) = m\<lparr>currentLang := language\<rparr>"
  "fetchLog (snd (snd (setLanguage_apply language (m, w)))) = fetchLog w"
  by (simp_all add: setLanguage_apply_def Let_def case_prod_beta split: sum.splits)

lemma init_apply_frame:
  "fst (snd (init_apply language (m, w))) = m\<lparr>currentLang := language\<rparr>"
  "fetchLog (snd (snd (init_apply language (m, w)))) = fetchLog w"
  by (simp_all add: init_apply_def Let_def case_prod_beta split: sum.splits)

lemma fetchLog_loadTranslations:
  "\<exists>rest. fetchLog (snd (snd (loadTranslations net language (m, w))))
      = fetchLog w @ translations_url language # rest"
  by (cases rule: loadTranslations_cases[of net language m w]) simp_all

lemma loadTranslations_manager_frame:
  "fallbackLang (fst (snd (loadTranslations net language (m, w)))) = fallbackLang m"
  "supportedLanguages (fst (snd (loadTranslations net language (m, w)))) = supportedLanguages m"
  "currentLang (fst (snd (loadTranslations net language (m, w)))) = currentLang m"
  by (cases rule: loadTranslations_cases[of net language m w]; simp)+


lemma loadTranslations_cache_sound:
  "cache_sound net m \<Longrightarrow> cache_sound net (fst (snd (loadTranslations net language (m, w))))"
  by (cases rule: loadTranslations_cases[of net language m w]) (auto simp: cache_sound_def)

lemma loadTranslations_failed_cache:
  assumes "fetch_failed (net (translations_url language))"
  shows "k \<noteq> fallbackLang m \<or> k = language \<Longrightarrow>
     translations_cache (fst (snd (loadTranslations net language (m, w)))) k = translations_cache m k"
  by (cases rule: loadTranslations_cases[of net language m w])
     (use assms in \<open>auto simp: fetch_failed_def\<close>)

lemma loadTranslations_browser_fields:
  "navigator (snd (snd (loadTranslations net language (m, w)))) = navigator w"
  "preferredLanguage (snd (snd (loadTranslations net language (m, w)))) = preferredLanguage w"
  by (cases rule: loadTranslations_cases[of net language m w]; simp)+

lemma loadTranslations_returns:
  "\<exists>b s'. loadTranslations net language s = (Inr b, s')"
proof -
  obtain m w where s: "s = (m, w)" by (cases s)
  show ?thesis unfolding s
    by (cases rule: loadTranslations_cases[of net language m w]) simp_all
qed

lemma initialLanguage_after_load:
  "initialLanguage (fst (snd (loadTranslations net language (m, w))))
     (snd (snd (loadTranslations net language (m, w)))) = initialLanguage m w"
  by (simp add: initialLanguage_def detectBrowserLanguage_def loadTranslations_manager_frame
      loadTranslations_browser_fields split: option.splits)

lemma toLowerCase_Nil [simp]: "toLowerCase [] = []"
  by (simp add: toLowerCase_def)

lemma detect_loop_find:
  "detect_loop supported tags =
     map_option primary_subtag (find (\<lambda>tag. primary_subtag tag \<in> set supported) tags)"
  by (induction tags) (simp_all add: primary_subtag_def split_first_def Let_def)

lemma find_filter_Boolean:
  "\<not> P [] \<Longrightarrow> find P (filter_Boolean xs) = find P (List.map_filter id xs)"
proof (induction xs)
  case Nil
  then show ?case by (simp add: List.map_filter_simps)
next
  case (Cons x xs)
  then show ?case by (cases x) (auto simp: List.map_filter_simps)
qed

lemma detectBrowserLanguage_policy:
  assumes "[] \<notin> set (supportedLanguages m)"
  shows "detectBrowserLanguage m nav =
     (case find (\<lambda>tag. primary_subtag tag \<in> set (supportedLanguages m)) (reported_languages nav) of
        Some tag \<Rightarrow> primary_subtag tag
      | None \<Rightarrow> fallbackLang m)"
proof -
  have "\<not> (primary_subtag [] \<in> set (supportedLanguages m))"
    using assms by (simp add: primary_subtag_def)
  then have "find (\<lambda>tag. primary_subtag tag \<in> set (supportedLanguages m)) (browserLanguages nav)
      = find (\<lambda>tag. primary_subtag tag \<in> set (supportedLanguages m)) (reported_languages nav)"
    unfolding browserLanguages_def reported_languages_def by (rule find_filter_Boolean)
  then show ?thesis
    by (simp add: detectBrowserLanguage_def detect_loop_find split: option.splits)
qed

lemma initialLanguage_policy:
  assumes "[] \<notin> set (supportedLanguages m)"
  shows "initialLanguage m w =
     resolution_policy (supportedLanguages m) (fallbackLang m) (preferredLanguage w)
       (reported_languages (navigator w))"
  using assms
  by (auto simp: initialLanguage_def resolution_policy_def detectBrowserLanguage_policy Let_def
      split: option.splits)

lemma loadTranslations_toolsLoader:
  "toolsLoader (snd (snd (loadTranslations net language (m, w)))) = toolsLoader w"
  by (cases rule: loadTranslations_cases[of net language m w]; simp)

lemma loadTranslations_elements [simp]:
  "elements (snd (snd (loadTranslations net language (m, w)))) = elements w"
  by (cases rule: loadTranslations_cases[of net language m w]; simp)

lemma loadTranslations_pair_frame:
  assumes "snd (loadTranslations net language (m, w)) = (m', w')"
  shows "fallbackLang m' = fallbackLang m" and "elements w' = elements w"
  using loadTranslations_manager_frame(1)[of net language m w]
    loadTranslations_elements[of net language m w]
  by (simp_all add: assms)

subsection \<open>The two entry points in terms of their parts\<close>

lemma setLanguage_eq:
  "setLanguage net language (m, w) =
     setLanguage_apply language
       (if get_property (translations_cache m) language = Absent
        then snd (loadTranslations net language (m, w)) else (m, w))"
proof -
  obtain b s' where "loadTranslations net language (m, w) = (Inr b, s')"
    using loadTranslations_returns by blast
  then show ?thesis by (simp add: setLanguage_def)
qed

lemma setLanguage_cached:
  "translations_cache m language = Some b \<Longrightarrow>
   setLanguage net language (m, w) = setLanguage_apply language (m, w)"
  by (simp add: setLanguage_eq get_property_def)

lemma init_eq:
  "init net (m, w) =
     init_apply (initialLanguage m w)
       (if initialLanguage m w \<noteq> fallbackLang m
        then snd (loadTranslations net (initialLanguage m w)
               (snd (loadTranslations net (fallbackLang m) (m, w))))
        else snd (loadTranslations net (fallbackLang m) (m, w)))"
proof -
  obtain b1 m1 w1 where l1: "loadTranslations net (fallbackLang m) (m, w) = (Inr b1, m1, w1)"
    using loadTranslations_returns[of net "fallbackLang m" "(m, w)"] by (metis prod.collapse)
  have il: "initialLanguage m1 w1 = initialLanguage m w"
    using initialLanguage_after_load[of net "fallbackLang m" m w] by (simp add: l1)
  have fb: "fallbackLang m1 = fallbackLang m"
    using loadTranslations_manager_frame(1)[of net "fallbackLang m" m w] by (simp add: l1)
  obtain b2 s2 where l2: "loadTranslations net (initialLanguage m w) (m1, w1) = (Inr b2, s2)"
    using loadTranslations_returns by blast
  show ?thesis
    by (simp add: init_def l1 il fb l2)
qed

lemma setLanguage_fields:
  "translations_cache (fst (snd (setLanguage net language (m, w)))) =
     (if get_property (translations_cache m) language = Absent
      then translations_cache (fst (snd (loadTranslations net language (m, w))))
      else translations_cache m)"
  "fetchLog (snd (snd (setLanguage net language (m, w)))) =
     (if get_property (translations_cache m) language = Absent
      then fetchLog (snd (snd (loadTranslations net language (m, w))))
      else fetchLog w)"
  "fallbackLang (fst (snd (setLanguage net language (m, w)))) = fallbackLang m"
  "currentLang (fst (snd (setLanguage net language (m, w)))) = language"
proof -
  obtain m' w' where s: "snd (loadTranslations net language (m, w)) = (m', w')"
    by (cases "snd (loadTranslations net language (m, w))")
  have fb: "fallbackLang m' = fallbackLang m"
    using loadTranslations_manager_frame(1)[of net language m w] by (simp add: s)
  show "translations_cache (fst (snd (setLanguage net language (m, w)))) =
     (if get_property (translations_cache m) language = Absent
      then translations_cache (fst (snd (loadTranslations net language (m, w))))
      else translations_cache m)"
    and "fetchLog (snd (snd (setLanguage net language (m, w)))) =
     (if get_property (translations_cache m) language = Absent
      then fetchLog (snd (snd (loadTranslations net language (m, w))))
      else fetchLog w)"
    and "fallbackLang (fst (snd (setLanguage net language (m, w)))) = fallbackLang m"
    and "currentLang (fst (snd (setLanguage net language (m, w)))) = language"
    by (simp_all add: setLanguage_eq s setLanguage_apply_frame fb)
qed

lemma init_fields:
  "currentLang (fst (snd (init net (m, w)))) = initialLanguage m w"
proof -
  let ?s = "if initialLanguage m w \<noteq> fallbackLang m
        then snd (loadTranslations net (initialLanguage m w)
               (snd (loadTranslations net (fallbackLang m) (m, w))))
        else snd (loadTranslations net (fallbackLang m) (m, w))"
  obtain m' w' where s: "?s = (m', w')" by (cases ?s)
  show ?thesis
    by (simp only: init_eq s) (simp add: init_apply_frame)
qed

subsection \<open>When applying the translations cannot throw\<close>

lemma currentTranslations_plain:
  assumes "\<not> prototype_member (currentLang m)" and "\<not> prototype_member (fallbackLang m)"
  shows "\<exists>b. currentTranslations m = Bundle b"
  using assms
  by (simp add: currentTranslations_def get_property_def split: option.splits)

lemma plain_keys_no_throw:
  "\<forall>el \<in> set els. \<not> prototype_member (el_key el) \<Longrightarrow> \<forall>el \<in> set els. \<not> throws_on b el"
  by (simp add: throws_on_def)

lemma updatePageTranslations_plain:
  assumes "\<not> prototype_member (currentLang m)" and "\<not> prototype_member (fallbackLang m)"
    and "\<forall>el \<in> set (elements w). \<not> prototype_member (el_key el)"
  shows "fst (updatePageTranslations m w) = Inr ()"
proof -
  obtain b where b: "currentTranslations m = Bundle b"
    using currentTranslations_plain[OF assms(1,2)] by blast
  have "\<forall>el \<in> set (elements w). \<not> throws_on b el"
    using assms(3) by (rule plain_keys_no_throw)
  then show ?thesis
    by (simp add: updatePageTranslations_no_throw[OF b])
qed

lemma detect_loop_supported:
  "detect_loop supported tags = Some lang \<Longrightarrow> lang \<in> set supported"
  by (induction tags) (auto simp: Let_def split: if_splits)

lemma initialLanguage_plain:
  assumes "plain_languages m"
  shows "\<not> prototype_member (initialLanguage m w)"
proof -
  have sup: "\<And>l. l \<in> set (supportedLanguages m) \<Longrightarrow> \<not> prototype_member l"
    using assms by (simp add: plain_languages_def list_all_iff)
  have fb: "\<not> prototype_member (fallbackLang m)"
    using assms by (simp add: plain_languages_def)
  have "\<not> prototype_member (detectBrowserLanguage m nav)" for nav
    using sup fb detect_loop_supported[of "supportedLanguages m" "browserLanguages nav"]
    by (auto simp: detectBrowserLanguage_def split: option.splits)
  then show ?thesis
    using sup by (auto simp: initialLanguage_def split: option.splits)
qed

lemma init_plain:
  assumes "plain_languages m" and "\<forall>el \<in> set (elements w). \<not> prototype_member (el_key el)"
  shows "fst (init net (m, w)) = Inr ()"
proof -
  let ?lang = "initialLanguage m w"
  let ?s = "if ?lang \<noteq> fallbackLang m
        then snd (loadTranslations net ?lang (snd (loadTranslations net (fallbackLang m) (m, w))))
        else snd (loadTranslations net (fallbackLang m) (m, w))"
  obtain m1 w1 where s1: "snd (loadTranslations net (fallbackLang m) (m, w)) = (m1, w1)"
    by (cases "snd (loadTranslations net (fallbackLang m) (m, w))")
  obtain m2 w2 where s: "?s = (m2, w2)" by (cases ?s)
  have f1: "fallbackLang m1 = fallbackLang m" and e1: "elements w1 = elements w"
    using loadTranslations_pair_frame[OF s1] by simp_all
  have f2: "fallbackLang m2 = fallbackLang m" and e2: "elements w2 = elements w"
    using s f1 e1 loadTranslations_pair_frame[of net ?lang m1 w1 m2 w2]
    by (auto simp: s1 split: if_splits)
  have fb: "\<not> prototype_member (fallbackLang m)"
    using assms(1) by (simp add: plain_languages_def)
  have "fst (updatePageTranslations (m2\<lparr>currentLang := ?lang\<rparr>) w2) = Inr ()"
    using initialLanguage_plain[OF assms(1), of w] fb assms(2)
    by (intro updatePageTranslations_plain) (simp_all add: f2 e2)
  then show ?thesis
    by (simp only: init_eq s) (simp add: init_apply_def Let_def case_prod_beta split: sum.splits)
qed


subsection \<open>Initial language resolution\<close>

text \<open>
  Claim C4. \<open>init\<close> makes current the language of the resolution policy: the stored
  preference when it is supported, otherwise the lowercased primary subtag of the first
  reported language whose primary subtag is supported, otherwise the fallback language.
  Language codes are non-empty, so the empty string is not among the supported ones.
  \<open>init\<close> completes without error when no language code of the manager and no
  translation key of the document is the name of a member that every object inherits.
  The witness runs the two cases of the specification: the preference list fr-FR, pt-BR,
  en-US with no stored preference, and the stored preference pt with a browser that
  reports en.
\<close>

theorem init_resolves_by_priority:
  assumes "[] \<notin> set (supportedLanguages m)"
  shows "(plain_languages m \<and> (\<forall>el \<in> set (elements w). \<not> prototype_member (el_key el)) \<longrightarrow>
            fst (init net (m, w)) = Inr ())
    \<and> currentLang (fst (snd (init net (m, w)))) =
        resolution_policy (supportedLanguages m) (fallbackLang m) (preferredLanguage w)
          (reported_languages (navigator w))"
  using init_plain[of m w net]
  by (simp add: init_fields initialLanguage_policy[OF assms])

theorem init_resolves_by_priority_witness:
  "[] \<notin> set (supportedLanguages constructor)
   \<and> plain_languages constructor
   \<and> list_all (\<lambda>el. \<not> prototype_member (el_key el)) (elements example_browser)
   \<and> fst (init example_net (constructor, example_browser)) = Inr ()
   \<and> preferredLanguage example_browser = None
   \<and> browserLanguages (navigator example_browser) = [''fr-FR'', ''fr-FR'', ''pt-BR'', ''en-US'']
   \<and> currentLang (fst (snd (init example_net (constructor, example_browser)))) = ''pt''
   \<and> preferredLanguage returning_browser = Some ''pt''
   \<and> browserLanguages (navigator returning_browser) = [''en'', ''en'']
   \<and> currentLang (fst (snd (init example_net (constructor, returning_browser)))) = ''pt''"
proof -
  have h: "[] \<notin> set (supportedLanguages constructor)" by (simp add: constructor_def)
  have p: "plain_languages constructor"
    by (simp add: plain_languages_def constructor_def prototype_member_def)
  have k: "list_all (\<lambda>el. \<not> prototype_member (el_key el)) (elements example_browser)"
    by (simp add: example_browser_def example_elements_def prototype_member_def)
  then have k': "\<forall>el \<in> set (elements example_browser). \<not> prototype_member (el_key el)"
    by (simp add: list_all_iff)
  have r: "fst (init example_net (constructor, example_browser)) = Inr ()"
    using init_resolves_by_priority[OF h, of example_browser example_net] p k' by blast
  have a: "currentLang (fst (snd (init example_net (constructor, example_browser)))) = ''pt''"
    using init_resolves_by_priority[OF h, of example_browser example_net]
    by (simp add: constructor_def example_browser_def reported_languages_def
        List.map_filter_simps resolution_policy_def primary_subtag_def toLowerCase_def
        toLowerCase_char_def)
  have b: "currentLang (fst (snd (init example_net (constructor, returning_browser)))) = ''pt''"
    using init_resolves_by_priority[OF h, of returning_browser example_net]
    by (simp add: constructor_def example_browser_def returning_browser_def
        reported_languages_def List.map_filter_simps resolution_policy_def)
  show ?thesis using h p k r a b
    by (simp add: example_browser_def returning_browser_def browserLanguages_def)
qed

lemma setLanguage_apply_ok:
  assumes "currentTranslations (m\<lparr>currentLang := language\<rparr>) = Bundle b"
    and "\<forall>el \<in> set (elements w). \<not> throws_on b el"
  shows "setLanguage_apply language (m, w) =
     (Inr (), m\<lparr>currentLang := language\<rparr>,
      (updateLanguageButtons (m\<lparr>currentLang := language\<rparr>)
         (w\<lparr>documentLang := language,
            elements := map (\<lambda>el. snd (updateElement b el)) (elements w)\<rparr>))
        \<lparr>toolsLoaderCalls :=
           (if toolsLoader w then toolsLoaderCalls w @ [language] else toolsLoaderCalls w),
         dispatched := dispatched w @ [language],
         preferredLanguage := Some language\<rparr>)"
proof -
  have "updatePageTranslations (m\<lparr>currentLang := language\<rparr>) (w\<lparr>documentLang := language\<rparr>) =
     (Inr (), w\<lparr>documentLang := language,
                 elements := map (\<lambda>el. snd (updateElement b el)) (elements w)\<rparr>)"
    using updatePageTranslations_no_throw[OF assms(1), of "w\<lparr>documentLang := language\<rparr>"] assms(2)
    by simp
  then show ?thesis
    by (simp add: setLanguage_apply_def Let_def updateLanguageButtons_def)
qed

subsection \<open>The cache holds what each language's own source served\<close>

lemma setLanguage_cache_sound:
  assumes "cache_sound net m"
  shows "cache_sound net (fst (snd (setLanguage net language (m, w))))"
proof -
  have "cache_sound net (fst (snd (loadTranslations net language (m, w))))"
    using assms by (rule loadTranslations_cache_sound)
  then show ?thesis using assms
    by (simp add: setLanguage_fields(1) cache_sound_def)
qed

lemma init_cache:
  "translations_cache (fst (snd (init net (m, w)))) =
     translations_cache (fst
       (if initialLanguage m w \<noteq> fallbackLang m
        then snd (loadTranslations net (initialLanguage m w)
               (snd (loadTranslations net (fallbackLang m) (m, w))))
        else snd (loadTranslations net (fallbackLang m) (m, w))))"
proof -
  let ?s = "if initialLanguage m w \<noteq> fallbackLang m
        then snd (loadTranslations net (initialLanguage m w)
               (snd (loadTranslations net (fallbackLang m) (m, w))))
        else snd (loadTranslations net (fallbackLang m) (m, w))"
  obtain m' w' where s: "?s = (m', w')" by (cases ?s)
  show ?thesis
    by (simp only: init_eq s) (simp add: init_apply_frame)
qed

lemma loadTranslations_cache_sound_pair:
  "cache_sound net (fst s) \<Longrightarrow> cache_sound net (fst (snd (loadTranslations net language s)))"
  using loadTranslations_cache_sound[of net "fst s" language "snd s"] by simp

lemma init_cache_sound:
  assumes "cache_sound net m"
  shows "cache_sound net (fst (snd (init net (m, w))))"
proof -
  let ?s1 = "snd (loadTranslations net (fallbackLang m) (m, w))"
  have 1: "cache_sound net (fst ?s1)"
    using assms by (rule loadTranslations_cache_sound)
  have 2: "cache_sound net (fst (snd (loadTranslations net (initialLanguage m w) ?s1)))"
    using 1 by (rule loadTranslations_cache_sound_pair)
  show ?thesis using 1 2
    by (simp add: init_cache cache_sound_def)
qed

lemma loadTranslations_writes:
  assumes "translations_cache (fst (snd (loadTranslations net language (m, w)))) k
      \<noteq> translations_cache m k"
  shows "(k = language \<or> k = fallbackLang m)
    \<and> (\<exists>b. translations_cache (fst (snd (loadTranslations net language (m, w)))) k = Some b
           \<and> net (translations_url k) = Response True (Some b))"
  using assms
  by (cases rule: loadTranslations_cases[of net language m w]) (auto split: if_splits)

text \<open>
  Claim C10. The cache only ever maps a language to a bundle fetched from that language's
  own source. The language codes are those that name no member that every object
  inherits: an assignment to \<open>translations['__proto__']\<close> would set the prototype of the
  cache object instead of an entry, and the test \<open>!this.translations[language]\<close> of
  \<open>setLanguage\<close> finds the inherited member for a name such as \<open>constructor\<close>. With a
  translation source that keeps serving the same bundles, \<open>loadTranslations\<close>,
  \<open>setLanguage\<close> and \<open>init\<close> keep \<open>cache_sound\<close>. Whatever the source does, an entry
  that a call of \<open>loadTranslations\<close> changes is the entry of the requested or of the
  fallback language, and its new value is the bundle that this language's own URL served
  in that call. When the fetch for the requested language fails, its entry is left as it
  was and only the entry of the fallback language can change; if it had no entry, a later
  \<open>setLanguage\<close> for it requests its source again.
\<close>

theorem cache_only_own_source:
  assumes "cache_sound net m" and "plain_languages m" and "\<not> prototype_member language"
  shows "cache_sound net (fst (snd (loadTranslations net language (m, w))))
    \<and> cache_sound net (fst (snd (setLanguage net language (m, w))))
    \<and> cache_sound net (fst (snd (init net (m, w))))
    \<and> (\<forall>other k. translations_cache (fst (snd (loadTranslations other language (m, w)))) k
            \<noteq> translations_cache m k \<longrightarrow>
          (k = language \<or> k = fallbackLang m)
          \<and> (\<exists>b. translations_cache (fst (snd (loadTranslations other language (m, w)))) k = Some b
                 \<and> other (translations_url k) = Response True (Some b)))
    \<and> (fetch_failed (net (translations_url language)) \<longrightarrow>
          translations_cache (fst (snd (loadTranslations net language (m, w)))) language
            = translations_cache m language
          \<and> (\<forall>k. k \<noteq> fallbackLang m \<longrightarrow>
                translations_cache (fst (snd (loadTranslations net language (m, w)))) k
                  = translations_cache m k))
    \<and> (fetch_failed (net (translations_url language)) \<and> translations_cache m language = None \<longrightarrow>
          (\<exists>rest. fetchLog (snd (snd (setLanguage later language (snd (loadTranslations net language (m, w))))))
             = fetchLog (snd (snd (loadTranslations net language (m, w)))) @ translations_url language # rest))"
proof (intro conjI impI allI)
  show "cache_sound net (fst (snd (loadTranslations net language (m, w))))"
    using assms(1) by (rule loadTranslations_cache_sound)
  show "cache_sound net (fst (snd (setLanguage net language (m, w))))"
    using assms(1) by (rule setLanguage_cache_sound)
  show "cache_sound net (fst (snd (init net (m, w))))"
    using assms(1) by (rule init_cache_sound)
next
  fix other k
  assume ch: "translations_cache (fst (snd (loadTranslations other language (m, w)))) k
            \<noteq> translations_cache m k"
  show "k = language \<or> k = fallbackLang m"
    using loadTranslations_writes[OF ch] by blast
  show "\<exists>b. translations_cache (fst (snd (loadTranslations other language (m, w)))) k = Some b
                 \<and> other (translations_url k) = Response True (Some b)"
    using loadTranslations_writes[OF ch] by blast
next
  assume "fetch_failed (net (translations_url language))"
  then show "translations_cache (fst (snd (loadTranslations net language (m, w)))) language
      = translations_cache m language"
    by (simp add: loadTranslations_failed_cache)
next
  fix k
  assume "fetch_failed (net (translations_url language))" "k \<noteq> fallbackLang m"
  then show "translations_cache (fst (snd (loadTranslations net language (m, w)))) k
      = translations_cache m k"
    by (simp add: loadTranslations_failed_cache)
next
  assume a: "fetch_failed (net (translations_url language)) \<and> translations_cache m language = None"
  obtain m' w' where s': "snd (loadTranslations net language (m, w)) = (m', w')"
    by (cases "snd (loadTranslations net language (m, w))")
  have "translations_cache m' language = None"
    using a loadTranslations_failed_cache[of net language language m w] by (simp add: s')
  then have "get_property (translations_cache m') language = Absent"
    using assms(3) by (simp add: get_property_def)
  then have "fetchLog (snd (snd (setLanguage later language (m', w'))))
     = fetchLog (snd (snd (loadTranslations later language (m', w'))))"
    by (simp add: setLanguage_fields(2))
  then show "\<exists>rest. fetchLog (snd (snd (setLanguage later language (snd (loadTranslations net language (m, w))))))
             = fetchLog (snd (snd (loadTranslations net language (m, w)))) @ translations_url language # rest"
    using fetchLog_loadTranslations[of later language m' w'] by (simp add: s')
qed

theorem cache_only_own_source_witness:
  "cache_sound en_only_net constructor
   \<and> plain_languages constructor
   \<and> \<not> prototype_member ''pt''
   \<and> fetch_failed (en_only_net (translations_url ''pt''))
   \<and> translations_cache constructor ''pt'' = None
   \<and> translations_cache (fst (snd (loadTranslations en_only_net ''pt'' (constructor, example_browser)))) ''pt'' = None
   \<and> translations_cache (fst (snd (loadTranslations en_only_net ''pt'' (constructor, example_browser)))) ''en''
       \<noteq> translations_cache constructor ''en''
   \<and> en_only_net (translations_url ''en'')
       = Response True (translations_cache (fst (snd (loadTranslations en_only_net ''pt'' (constructor, example_browser)))) ''en'')
   \<and> cache_sound en_only_net (fst (snd (loadTranslations en_only_net ''pt'' (constructor, example_browser))))"
proof -
  have h: "cache_sound en_only_net constructor"
    by (simp add: cache_sound_def constructor_def)
  have f: "fetch_failed (en_only_net (translations_url ''pt''))"
    by (simp add: fetch_failed_def en_only_net_def translations_url_def)
  have n: "translations_cache constructor ''pt'' = None"
    by (simp add: constructor_def)
  have fb: "fallbackLang constructor = ''en''"
    by (simp add: constructor_def)
  have c: "translations_cache (fst (snd (loadTranslations en_only_net ''pt'' (constructor, example_browser)))) ''en''
       \<noteq> translations_cache constructor ''en''"
    by (simp add: en_only_load_pt[OF fb]) (simp add: constructor_def)
  have pl: "plain_languages constructor" and pp: "\<not> prototype_member ''pt''"
    by (simp_all add: plain_languages_def constructor_def prototype_member_def)
  note t = cache_only_own_source[OF h pl pp, of example_browser]
  let ?c = "translations_cache (fst (snd (loadTranslations en_only_net ''pt'' (constructor, example_browser))))"
  note all = t[THEN conjunct2, THEN conjunct2, THEN conjunct2, THEN conjunct1]
  from all[rule_format, of en_only_net "''en''", OF c]
  have e: "en_only_net (translations_url ''en'') = Response True (?c ''en'')"
    by auto
  note p = t[THEN conjunct2, THEN conjunct2, THEN conjunct2, THEN conjunct2, THEN conjunct1,
      THEN mp, OF f, THEN conjunct1]
  note s = t[THEN conjunct1]
  show ?thesis using h pl pp f n c e p s
    by simp
qed

subsection \<open>Where the cache is consulted\<close>

lemma english_loaded_eq:
  "english_loaded =
    (constructor\<lparr>translations_cache := [''en'' \<mapsto> en_bundle]\<rparr>,
     example_browser\<lparr>fetchLog := [''translations/en.json'']\<rparr>)"
  by (simp add: english_loaded_def loadTranslations_ok example_net_def translations_url_def
      example_browser_def constructor_def)

lemma en_bundle_not_empty: "en_bundle \<noteq> Map.empty"
proof
  assume "en_bundle = Map.empty"
  then have "en_bundle ''title'' = None" by (rule fun_cong[of en_bundle Map.empty, simplified])
  then show False by (simp add: en_bundle_def)
qed

text \<open>
  Claim C1 as stated fails on \<open>loadTranslations\<close>: with the English bundle already in the
  cache, a second \<open>loadTranslations\<close> for English requests the translation source
  again, and when that request fails it returns the empty mapping, not the cached
  bundle.
\<close>

theorem loadTranslations_cache_counterexample:
  "translations_cache (fst english_loaded) ''en'' = Some en_bundle
   \<and> fetchLog (snd english_loaded) = [''translations/en.json'']
   \<and> fetchLog (snd (snd (loadTranslations example_net ''en'' english_loaded)))
       = [''translations/en.json'', ''translations/en.json'']
   \<and> fst (loadTranslations offline_net ''en'' english_loaded) = Inr Map.empty
   \<and> en_bundle \<noteq> Map.empty"
proof -
  have fb: "fallbackLang (constructor\<lparr>translations_cache := [''en'' \<mapsto> en_bundle]\<rparr>) = ''en''"
    by (simp add: constructor_def)
  have off: "fetch_failed (offline_net (translations_url ''en''))"
    by (simp add: fetch_failed_def offline_net_def)
  have "fst (loadTranslations offline_net ''en'' english_loaded) = Inr Map.empty"
    using loadTranslations_failed_fallback[of offline_net
        "constructor\<lparr>translations_cache := [''en'' \<mapsto> en_bundle]\<rparr>"
        "example_browser\<lparr>fetchLog := [''translations/en.json'']\<rparr>"] off
    by (simp add: english_loaded_eq fb)
  moreover have "fetchLog (snd (snd (loadTranslations example_net ''en'' english_loaded)))
       = [''translations/en.json'', ''translations/en.json'']"
    by (simp add: english_loaded_eq loadTranslations_ok example_net_def translations_url_def)
  ultimately show ?thesis
    by (simp add: english_loaded_eq en_bundle_not_empty)
qed

text \<open>
  Claim C1, amended. The cache is consulted by \<open>setLanguage\<close>: when a bundle for the
  language is cached, \<open>setLanguage\<close> makes no fetch, leaves the cache as it is and
  applies the cached bundle; it completes without error when no element of the document
  makes the substitution throw. \<open>loadTranslations\<close> itself does not consult the cache:
  every call requests the language's translation source, and when that request succeeds
  it returns the fetched bundle and stores it under the language.
\<close>

theorem setLanguage_uses_cache_loadTranslations_fetches:
  "(translations_cache m language = Some b \<longrightarrow>
      ((\<forall>el \<in> set (elements w). \<not> throws_on b el) \<longrightarrow>
         fst (setLanguage net language (m, w)) = Inr ())
      \<and> fetchLog (snd (snd (setLanguage net language (m, w)))) = fetchLog w
      \<and> translations_cache (fst (snd (setLanguage net language (m, w)))) = translations_cache m
      \<and> currentTranslations (fst (snd (setLanguage net language (m, w)))) = Bundle b)
   \<and> (\<exists>rest. fetchLog (snd (snd (loadTranslations net language (m, w))))
         = fetchLog w @ translations_url language # rest)
   \<and> (net (translations_url language) = Response True (Some json) \<longrightarrow>
        fst (loadTranslations net language (m, w)) = Inr json
        \<and> translations_cache (fst (snd (loadTranslations net language (m, w)))) language = Some json)"
proof (intro conjI impI)
  assume c: "translations_cache m language = Some b"
  then have ct: "currentTranslations (m\<lparr>currentLang := language\<rparr>) = Bundle b"
    by (simp add: currentTranslations_def get_property_def)
  show "fetchLog (snd (snd (setLanguage net language (m, w)))) = fetchLog w"
    using c by (simp add: setLanguage_cached setLanguage_apply_frame)
  show "translations_cache (fst (snd (setLanguage net language (m, w)))) = translations_cache m"
    using c by (simp add: setLanguage_cached setLanguage_apply_frame)
  show "currentTranslations (fst (snd (setLanguage net language (m, w)))) = Bundle b"
    using c ct by (simp add: setLanguage_cached setLanguage_apply_frame)
  assume "\<forall>el \<in> set (elements w). \<not> throws_on b el"
  then show "fst (setLanguage net language (m, w)) = Inr ()"
    using c ct by (simp add: setLanguage_cached setLanguage_apply_ok)
next
  show "\<exists>rest. fetchLog (snd (snd (loadTranslations net language (m, w))))
         = fetchLog w @ translations_url language # rest"
    by (rule fetchLog_loadTranslations)
next
  assume "net (translations_url language) = Response True (Some json)"
  then show "fst (loadTranslations net language (m, w)) = Inr json"
    and "translations_cache (fst (snd (loadTranslations net language (m, w)))) language = Some json"
    by (simp_all add: loadTranslations_ok)
qed

theorem setLanguage_uses_cache_loadTranslations_fetches_witness:
  "translations_cache (fst english_loaded) ''en'' = Some en_bundle
   \<and> list_all (\<lambda>el. \<not> throws_on en_bundle el) (elements (snd english_loaded))
   \<and> example_net (translations_url ''en'') = Response True (Some en_bundle)
   \<and> fst (setLanguage offline_net ''en'' english_loaded) = Inr ()
   \<and> fetchLog (snd (snd (setLanguage offline_net ''en'' english_loaded))) = fetchLog (snd english_loaded)
   \<and> currentTranslations (fst (snd (setLanguage offline_net ''en'' english_loaded))) = Bundle en_bundle
   \<and> fst (loadTranslations example_net ''en'' english_loaded) = Inr en_bundle"
proof -
  have c: "translations_cache (fst english_loaded) ''en'' = Some en_bundle"
    by (simp add: english_loaded_eq)
  have k: "list_all (\<lambda>el. \<not> throws_on en_bundle el) (elements (snd english_loaded))"
    by (simp add: english_loaded_eq example_browser_def example_elements_def throws_on_def
        prototype_member_def)
  then have k': "\<forall>el \<in> set (elements (snd english_loaded)). \<not> throws_on en_bundle el"
    by (simp add: list_all_iff)
  have n: "example_net (translations_url ''en'') = Response True (Some en_bundle)"
    by (simp add: example_net_def translations_url_def)
  from setLanguage_uses_cache_loadTranslations_fetches
         [of "fst english_loaded" "''en''" en_bundle "snd english_loaded" offline_net]
       setLanguage_uses_cache_loadTranslations_fetches
         [of "fst english_loaded" "''en''" en_bundle "snd english_loaded" example_net en_bundle]
       c k k' n
  show ?thesis by simp
qed

subsection \<open>Applying translations to the document\<close>

lemma str_includes_iff: "str_includes s t \<longleftrightarrow> (\<exists>p q. s = p @ t @ q)"
proof (induction s)
  case Nil
  then show ?case by auto
next
  case (Cons c s)
  show ?case
  proof
    assume "str_includes (c # s) t"
    then consider "prefix t (c # s)" | "str_includes s t" by auto
    then show "\<exists>p q. c # s = p @ t @ q"
    proof cases
      case 1
      then obtain q where "c # s = t @ q" by (auto simp: prefix_def)
      then have "c # s = [] @ t @ q" by simp
      then show ?thesis by blast
    next
      case 2
      then obtain p q where "s = p @ t @ q" using Cons.IH by blast
      then have "c # s = (c # p) @ t @ q" by simp
      then show ?thesis by blast
    qed
  next
    assume "\<exists>p q. c # s = p @ t @ q"
    then obtain p q where pq: "c # s = p @ t @ q" by blast
    show "str_includes (c # s) t"
    proof (cases p)
      case Nil
      then have "prefix t (c # s)" using pq by (simp add: prefix_def)
      then show ?thesis by simp
    next
      case (Cons a p')
      then have "s = p' @ t @ q" using pq by simp
      then have "str_includes s t" using Cons.IH by blast
      then show ?thesis by simp
    qed
  qed
qed

lemma updateElement_ordinary:
  assumes "el_key el \<noteq> ''toggle-button''"
  shows "snd (updateElement b el) =
     (case get_property b (el_key el) of
        Absent \<Rightarrow> el
      | Own t \<Rightarrow>
          if t = [] then el
          else el\<lparr>el_title := map_option (\<lambda>old. Attr t) (el_title el), el_content := inserted t\<rparr>
      | Inherited \<Rightarrow> el\<lparr>el_title := map_option (\<lambda>old. BuiltinAttr (el_key el)) (el_title el)\<rparr>)"
  using assms
  by (cases "el_title el")
     (auto simp: updateElement_def inserted_def Let_def split: property.splits)

lemma updateElement_toggle:
  assumes "el_key el = ''toggle-button''"
  shows "snd (updateElement b el) =
     el\<lparr>el_content :=
          PlainText (if el_nextExpanded el
                     then lookup_or b ''toggle-button-less'' ''Show Less''
                     else lookup_or b ''toggle-button'' ''Show Tools'')\<rparr>"
  using assms by (simp add: updateElement_def updateToggleButton_def)

lemma forEach_update_nth_cases:
  "i < length els \<Longrightarrow>
   snd (forEach_update b els) ! i = els ! i
   \<or> snd (forEach_update b els) ! i = snd (updateElement b (els ! i))"
proof (induction els arbitrary: i)
  case Nil
  then show ?case by simp
next
  case (Cons el els)
  show ?case
  proof (cases i)
    case 0
    then show ?thesis by (auto simp: case_prod_beta split: sum.splits)
  next
    case (Suc k)
    then have "k < length els" using Cons.prems by simp
    then have "snd (forEach_update b els) ! k = els ! k
        \<or> snd (forEach_update b els) ! k = snd (updateElement b (els ! k))"
      by (rule Cons.IH)
    then show ?thesis using Suc by (auto simp: case_prod_beta split: sum.splits)
  qed
qed

lemma elements_updatePageTranslations:
  assumes "currentTranslations m = Bundle b" and "i < length (elements w)"
    and "\<forall>j < i. \<not> throws_on b (elements w ! j)"
  shows "elements (snd (updatePageTranslations m w)) ! i = snd (updateElement b (elements w ! i))"
  using assms by (simp add: updatePageTranslations_bundle forEach_update_nth)










lemma toggle_translations: "currentTranslations toggle_manager = Bundle toggle_bundle"
  by (simp add: toggle_manager_def currentTranslations_def get_property_def constructor_def)

text \<open>
  Claim C8 as stated fails on the toggle button: its label is written through
  \<open>textContent\<close> whatever it contains. With a bundle whose value for
  \<open>toggle-button-less\<close> contains \<open><a href\<close>, the expanded toggle button receives that
  value as plain text.
\<close>

theorem toggle_markup_counterexample:
  "el_key (elements example_browser ! 2) = ''toggle-button''
   \<and> el_nextExpanded (elements example_browser ! 2)
   \<and> currentTranslations toggle_manager = Bundle toggle_bundle
   \<and> toggle_bundle ''toggle-button-less'' = Some ''<a href=tools>Show less</a>''
   \<and> str_includes ''<a href=tools>Show less</a>'' ''<a href''
   \<and> fst (updatePageTranslations toggle_manager example_browser) = Inr ()
   \<and> el_content (elements (snd (updatePageTranslations toggle_manager example_browser)) ! 2)
       = PlainText ''<a href=tools>Show less</a>''"
proof -
  have nt: "\<forall>el \<in> set (elements example_browser). \<not> throws_on toggle_bundle el"
    by (simp add: example_browser_def example_elements_def throws_on_def prototype_member_def)
  have "updatePageTranslations toggle_manager example_browser =
     (Inr (), example_browser
        \<lparr>elements := map (\<lambda>el. snd (updateElement toggle_bundle el)) (elements example_browser)\<rparr>)"
    using updatePageTranslations_no_throw[OF toggle_translations nt] .
  then show ?thesis
    by (simp add: toggle_translations)
       (simp add: example_browser_def example_elements_def updateElement_def
        updateToggleButton_def lookup_or_def toggle_bundle_def get_property_def
        prototype_member_def)
qed

text \<open>
  Claim C8, amended. For an element that the visit reaches (no earlier element makes the
  substitution throw), whose key is not \<open>toggle-button\<close> and whose translation is a
  non-empty string, the translation is written as markup exactly when it contains
  \<open><a href\<close> (at some position), and as plain text otherwise. The element tagged
  \<open>toggle-button\<close> always receives its label as plain text, whether or not the label
  contains \<open><a href\<close>. No element, reached or not, receives markup from a translation
  that lacks that sequence: an element whose content is the markup \<open>t\<close> afterwards
  either had it before, or is an ordinary element whose translation is \<open>t\<close> and contains
  \<open><a href\<close>.
\<close>

theorem markup_only_for_anchor:
  assumes "i < length (elements w)" and "currentTranslations m = Bundle b"
  shows "((\<forall>j < i. \<not> throws_on b (elements w ! j))
          \<and> el_key (elements w ! i) \<noteq> ''toggle-button''
          \<and> b (el_key (elements w ! i)) = Some t \<and> t \<noteq> [] \<longrightarrow>
            el_content (elements (snd (updatePageTranslations m w)) ! i)
              = (if str_includes t ''<a href'' then Markup t else PlainText t))
     \<and> (str_includes t ''<a href'' \<longleftrightarrow> (\<exists>p q. t = p @ ''<a href'' @ q))
     \<and> ((\<forall>j < i. \<not> throws_on b (elements w ! j))
          \<and> el_key (elements w ! i) = ''toggle-button'' \<longrightarrow>
            el_content (elements (snd (updatePageTranslations m w)) ! i)
              = PlainText (if el_nextExpanded (elements w ! i)
                           then lookup_or b ''toggle-button-less'' ''Show Less''
                           else lookup_or b ''toggle-button'' ''Show Tools''))
     \<and> (el_content (elements (snd (updatePageTranslations m w)) ! i) = Markup t \<longrightarrow>
            el_content (elements w ! i) = Markup t
            \<or> (el_key (elements w ! i) \<noteq> ''toggle-button''
                \<and> b (el_key (elements w ! i)) = Some t \<and> str_includes t ''<a href''))"
proof (intro conjI impI)
  assume a: "(\<forall>j < i. \<not> throws_on b (elements w ! j))
          \<and> el_key (elements w ! i) \<noteq> ''toggle-button''
          \<and> b (el_key (elements w ! i)) = Some t \<and> t \<noteq> []"
  then have "elements (snd (updatePageTranslations m w)) ! i = snd (updateElement b (elements w ! i))"
    using elements_updatePageTranslations[OF assms(2,1)] by blast
  then show "el_content (elements (snd (updatePageTranslations m w)) ! i)
              = (if str_includes t ''<a href'' then Markup t else PlainText t)"
    using a by (simp add: updateElement_ordinary inserted_def get_property_def)
next
  show "str_includes t ''<a href'' \<longleftrightarrow> (\<exists>p q. t = p @ ''<a href'' @ q)"
    by (rule str_includes_iff)
next
  assume a: "(\<forall>j < i. \<not> throws_on b (elements w ! j)) \<and> el_key (elements w ! i) = ''toggle-button''"
  then have "elements (snd (updatePageTranslations m w)) ! i = snd (updateElement b (elements w ! i))"
    using elements_updatePageTranslations[OF assms(2,1)] by blast
  then show "el_content (elements (snd (updatePageTranslations m w)) ! i)
              = PlainText (if el_nextExpanded (elements w ! i)
                           then lookup_or b ''toggle-button-less'' ''Show Less''
                           else lookup_or b ''toggle-button'' ''Show Tools'')"
    using a by (simp add: updateElement_toggle)
next
  assume mk: "el_content (elements (snd (updatePageTranslations m w)) ! i) = Markup t"
  let ?el = "elements w ! i"
  have el': "elements (snd (updatePageTranslations m w)) ! i = ?el
      \<or> elements (snd (updatePageTranslations m w)) ! i = snd (updateElement b ?el)"
    using forEach_update_nth_cases[OF assms(1), of b]
    by (simp add: updatePageTranslations_bundle[OF assms(2)])
  show "el_content ?el = Markup t
      \<or> (el_key ?el \<noteq> ''toggle-button'' \<and> b (el_key ?el) = Some t \<and> str_includes t ''<a href'')"
  proof (cases "el_key ?el = ''toggle-button''")
    case True
    then show ?thesis using mk el' by (auto simp: updateElement_toggle)
  next
    case False
    then show ?thesis using mk el'
      by (auto simp: updateElement_ordinary inserted_def get_property_def
          split: option.splits if_splits)
  qed
qed

theorem markup_only_for_anchor_witness:
  "0 < length (elements example_browser)
   \<and> 1 < length (elements example_browser)
   \<and> 2 < length (elements example_browser)
   \<and> currentTranslations (fst english_loaded) = Bundle en_bundle
   \<and> list_all (\<lambda>el. \<not> throws_on en_bundle el) (elements example_browser)
   \<and> el_key (elements example_browser ! 0) \<noteq> ''toggle-button''
   \<and> en_bundle (el_key (elements example_browser ! 0)) = Some ''Welcome''
   \<and> el_content (elements (snd (updatePageTranslations (fst english_loaded) example_browser)) ! 0)
       = PlainText ''Welcome''
   \<and> el_key (elements example_browser ! 1) \<noteq> ''toggle-button''
   \<and> en_bundle (el_key (elements example_browser ! 1)) = Some ''Read the <a href=docs>docs</a>''
   \<and> el_content (elements (snd (updatePageTranslations (fst english_loaded) example_browser)) ! 1)
       = Markup ''Read the <a href=docs>docs</a>''
   \<and> el_key (elements example_browser ! 2) = ''toggle-button''
   \<and> el_content (elements (snd (updatePageTranslations (fst english_loaded) example_browser)) ! 2)
       = PlainText ''Show Less''"
proof -
  have ct: "currentTranslations (fst english_loaded) = Bundle en_bundle"
    by (simp add: english_loaded_eq currentTranslations_def get_property_def constructor_def)
  have a: "0 < length (elements example_browser)" "1 < length (elements example_browser)"
      "2 < length (elements example_browser)"
    by (simp_all add: example_browser_def example_elements_def)
  have nt: "list_all (\<lambda>el. \<not> throws_on en_bundle el) (elements example_browser)"
    by (simp add: example_browser_def example_elements_def throws_on_def prototype_member_def)
  have nt0: "\<forall>j < 0. \<not> throws_on en_bundle (elements example_browser ! j)"
    by simp
  have t: "\<not> throws_on en_bundle (elements example_browser ! 0)"
      "\<not> throws_on en_bundle (elements example_browser ! 1)"
    by (simp_all add: example_browser_def example_elements_def throws_on_def prototype_member_def)
  have nt1: "\<forall>j < 1. \<not> throws_on en_bundle (elements example_browser ! j)"
    using t(1) by simp
  have nt2: "\<forall>j < 2. \<not> throws_on en_bundle (elements example_browser ! j)"
    using t by (auto simp: less_Suc_eq numeral_2_eq_2)
  have k: "el_key (elements example_browser ! 0) = ''title''"
      "el_key (elements example_browser ! 1) = ''subtitle''"
      "el_key (elements example_browser ! 2) = ''toggle-button''"
      "el_nextExpanded (elements example_browser ! 2)"
    by (simp_all add: example_browser_def example_elements_def)
  have v: "en_bundle ''title'' = Some ''Welcome''"
      "en_bundle ''subtitle'' = Some ''Read the <a href=docs>docs</a>''"
      "lookup_or en_bundle ''toggle-button-less'' ''Show Less'' = ''Show Less''"
    by (simp_all add: en_bundle_def lookup_or_def)
  from markup_only_for_anchor[OF a(1) ct, of "''Welcome''"]
       markup_only_for_anchor[OF a(2) ct, of "''Read the <a href=docs>docs</a>''"]
       markup_only_for_anchor[OF a(3) ct, of "[]"]
       a k v ct nt nt0 nt1 nt2
  show ?thesis by simp
qed

subsection \<open>Choosing the active language again\<close>

lemma button_id_inject [simp]: "button_id l = button_id l' \<longleftrightarrow> l = l'"
  by (simp add: button_id_def)

lemma paintButton_idem [simp]: "paintButton m l (paintButton m l button) = paintButton m l button"
  by (simp add: paintButton_def)

lemma updateLanguageButtons_at:
  "foldl (updateLanguageButton m) buttons ls (button_id l) =
     map_option (\<lambda>button. if l \<in> set ls then paintButton m l button else button)
       (buttons (button_id l))"
proof (induction ls arbitrary: buttons)
  case Nil
  then show ?case by (simp add: option.map_ident)
next
  case (Cons x ls)
  have step: "updateLanguageButton m buttons x =
      (case buttons (button_id x) of
         None \<Rightarrow> buttons
       | Some button \<Rightarrow> buttons(button_id x \<mapsto> paintButton m x button))"
    by (simp add: updateLanguageButton_def)
  have "foldl (updateLanguageButton m) buttons (x # ls) (button_id l) =
      map_option (\<lambda>button. if l \<in> set ls then paintButton m l button else button)
        (updateLanguageButton m buttons x (button_id l))"
    by (simp only: foldl_Cons Cons.IH)
  also have "\<dots> = map_option (\<lambda>button. if l \<in> set (x # ls) then paintButton m l button else button)
       (buttons (button_id l))"
    by (cases "buttons (button_id x)"; cases "buttons (button_id l)") (auto simp: step)
  finally show ?case .
qed

lemma updateLanguageButtons_other:
  "\<forall>l \<in> set ls. k \<noteq> button_id l \<Longrightarrow> foldl (updateLanguageButton m) buttons ls k = buttons k"
proof (induction ls arbitrary: buttons)
  case Nil
  then show ?case by simp
next
  case (Cons x ls)
  have step: "updateLanguageButton m buttons x k = buttons k"
    using Cons.prems by (cases "buttons (button_id x)") (auto simp: updateLanguageButton_def)
  have "foldl (updateLanguageButton m) buttons (x # ls) k = updateLanguageButton m buttons x k"
    using Cons.prems by (simp only: foldl_Cons) (rule Cons.IH, simp)
  then show ?case by (simp only: step)
qed

lemma updateLanguageButtons_twice:
  "foldl (updateLanguageButton m) (foldl (updateLanguageButton m) buttons ls) ls
     = foldl (updateLanguageButton m) buttons ls"
proof (rule ext)
  fix k
  show "foldl (updateLanguageButton m) (foldl (updateLanguageButton m) buttons ls) ls k
     = foldl (updateLanguageButton m) buttons ls k"
  proof (cases "\<exists>l \<in> set ls. k = button_id l")
    case True
    then obtain l where "l \<in> set ls" "k = button_id l" by blast
    then show ?thesis
      by (cases "buttons (button_id l)") (simp_all add: updateLanguageButtons_at)
  next
    case False
    then show ?thesis by (simp add: updateLanguageButtons_other)
  qed
qed


lemma throws_on_updateElement [simp]:
  "throws_on b (snd (updateElement b' el)) = throws_on b el"
  by (simp add: throws_on_def)

lemma updateLanguageButtons_idem:
  "updateLanguageButtons m (updateLanguageButtons m w) = updateLanguageButtons m w"
  by (simp add: updateLanguageButtons_def updateLanguageButtons_twice)



lemma keys_forEach_update [simp]: "map el_key (snd (forEach_update b els)) = map el_key els"
  by (induction els) (auto simp: case_prod_beta split: sum.splits)











lemma documentLang_updatePageTranslations [simp]:
  "documentLang (snd (updatePageTranslations m w)) = documentLang w"
  by (simp add: updatePageTranslations_def case_prod_beta split: translations_value.splits)



subsection \<open>Fetching a document\<close>

lemma fetch_text_eq:
  "fetch_text net url p = (attempt (net url), p\<lparr>fetchLog := fetchLog p @ [url]\<rparr>)"
  by (simp add: fetch_text_def fetch_def attempt_def split: fetch_result.splits)

lemma fetchMarkdownContent_eq:
  "fetchMarkdownContent net ctype language p =
     (case attempt (net (content_url language ctype)) of
        Some text \<Rightarrow> (Some text, p\<lparr>fetchLog := fetchLog p @ [content_url language ctype]\<rparr>)
      | None \<Rightarrow>
          if language = ''en''
          then (None, p\<lparr>fetchLog := fetchLog p @ [content_url language ctype]\<rparr>)
          else (attempt (net (content_url ''en'' ctype)),
                p\<lparr>fetchLog := fetchLog p @ [content_url language ctype, content_url ''en'' ctype]\<rparr>))"
  by (simp add: fetchMarkdownContent_def fetch_text_eq split: option.splits)

text \<open>
  Claim C5. \<open>fetchMarkdownContent\<close> is a chain of two levels. It requests the document in
  the given language and returns its text when that attempt succeeds (the request
  resolves, the response is ok and its text can be read). When the attempt fails and the
  language is the fallback language, it returns \<open>null\<close> after that single request. When
  it fails for another language it makes exactly one more request, for the document in
  the fallback language, and returns that attempt's text or \<open>null\<close>. It never makes more
  than two requests.
\<close>

theorem fetchMarkdownContent_two_levels:
  "(attempt (net (content_url language ctype)) = Some text \<longrightarrow>
      fetchMarkdownContent net ctype language p =
        (Some text, p\<lparr>fetchLog := fetchLog p @ [content_url language ctype]\<rparr>))
   \<and> (attempt (net (content_url language ctype)) = None \<and> language = fallbackLang constructor \<longrightarrow>
      fetchMarkdownContent net ctype language p =
        (None, p\<lparr>fetchLog := fetchLog p @ [content_url language ctype]\<rparr>))
   \<and> (attempt (net (content_url language ctype)) = None \<and> language \<noteq> fallbackLang constructor \<longrightarrow>
      fetchMarkdownContent net ctype language p =
        (attempt (net (content_url (fallbackLang constructor) ctype)),
         p\<lparr>fetchLog := fetchLog p @ [content_url language ctype,
                                      content_url (fallbackLang constructor) ctype]\<rparr>))
   \<and> length (fetchLog (snd (fetchMarkdownContent net ctype language p))) \<le> length (fetchLog p) + 2
   \<and> (attempt r = Some text \<longleftrightarrow> r = Response True (Some text))"
proof (intro conjI impI)
  have fb: "fallbackLang constructor = ''en''"
    by (simp add: constructor_def)
  {
    assume "attempt (net (content_url language ctype)) = Some text"
    then show "fetchMarkdownContent net ctype language p =
        (Some text, p\<lparr>fetchLog := fetchLog p @ [content_url language ctype]\<rparr>)"
      by (simp add: fetchMarkdownContent_eq)
  next
    assume "attempt (net (content_url language ctype)) = None \<and> language = fallbackLang constructor"
    then have "attempt (net (content_url language ctype)) = None" "language = ''en''"
      using fb by auto
    then show "fetchMarkdownContent net ctype language p =
        (None, p\<lparr>fetchLog := fetchLog p @ [content_url language ctype]\<rparr>)"
      by (simp add: fetchMarkdownContent_eq)
  next
    assume "attempt (net (content_url language ctype)) = None \<and> language \<noteq> fallbackLang constructor"
    then have "attempt (net (content_url language ctype)) = None" "language \<noteq> ''en''"
      using fb by auto
    then show "fetchMarkdownContent net ctype language p =
        (attempt (net (content_url (fallbackLang constructor) ctype)),
         p\<lparr>fetchLog := fetchLog p @ [content_url language ctype,
                                      content_url (fallbackLang constructor) ctype]\<rparr>)"
      by (simp add: fetchMarkdownContent_eq fb)
  next
    show "length (fetchLog (snd (fetchMarkdownContent net ctype language p))) \<le> length (fetchLog p) + 2"
      by (simp add: fetchMarkdownContent_eq split: option.splits)
  next
    show "attempt r = Some text \<longleftrightarrow> r = Response True (Some text)"
      by (cases r) (auto simp: attempt_def split: bool.splits)
  }
qed

theorem fetchMarkdownContent_two_levels_witness:
  "attempt (example_docs (content_url ''de'' ''handbook'')) = None
   \<and> ''de'' \<noteq> fallbackLang constructor
   \<and> fetchMarkdownContent example_docs ''handbook'' ''de'' example_page =
     (Some ''# Handbook'',
      example_page\<lparr>fetchLog := [''content/de/handbook.md'', ''content/en/handbook.md'']\<rparr>)
   \<and> attempt (example_docs (content_url ''en'' ''credits'')) = None
   \<and> ''en'' = fallbackLang constructor
   \<and> fetchMarkdownContent example_docs ''credits'' ''en'' example_page =
     (None, example_page\<lparr>fetchLog := [''content/en/credits.md'']\<rparr>)
   \<and> attempt (example_docs (content_url ''en'' ''handbook'')) = Some ''# Handbook''
   \<and> fetchMarkdownContent example_docs ''handbook'' ''en'' example_page =
     (Some ''# Handbook'', example_page\<lparr>fetchLog := [''content/en/handbook.md'']\<rparr>)"
proof -
  have a: "attempt (example_docs (content_url ''de'' ''handbook'')) = None"
    "attempt (example_docs (content_url ''en'' ''credits'')) = None"
    "attempt (example_docs (content_url ''en'' ''handbook'')) = Some ''# Handbook''"
    by (simp_all add: example_docs_def content_url_def attempt_def)
  have fb: "''de'' \<noteq> fallbackLang constructor" "''en'' = fallbackLang constructor"
    by (simp_all add: constructor_def)
  have l: "fetchLog example_page = []"
    by (simp add: example_page_def)
  from fetchMarkdownContent_two_levels[of example_docs "''de''" "''handbook''" _ example_page]
       fetchMarkdownContent_two_levels[of example_docs "''en''" "''credits''" _ example_page]
       fetchMarkdownContent_two_levels[of example_docs "''en''" "''handbook''" "''# Handbook''" example_page]
       a fb l
  show ?thesis
    by (simp add: content_url_def)
qed

lemma fetchLog_fetchMarkdownContent:
  "\<exists>rest. fetchLog (snd (fetchMarkdownContent net ctype language p))
     = fetchLog p @ content_url language ctype # rest"
  by (simp add: fetchMarkdownContent_eq split: option.splits)

lemma fetchLog_updatePageMeta [simp]: "fetchLog (updatePageMeta ctype language p) = fetchLog p"
  by (simp add: updatePageMeta_def Let_def)

lemma fetchLog_showError [simp]: "fetchLog (showError p) = fetchLog p"
  by (simp add: showError_def)

lemma fetchLog_loadContent:
  "fetchLog (loadContent net marked tm l p) =
     fetchLog (snd (fetchMarkdownContent net (case contentType l of None \<Rightarrow> ''null'' | Some c \<Rightarrow> c)
        (currentLang tm)
        (p\<lparr>loadingHidden := False, contentHidden := True, errorHidden := True\<rparr>)))"
  by (simp add: loadContent_def Let_def split: prod.splits option.splits)

lemma getContentTypeFromPath_None:
  "getContentTypeFromPath path = None \<longleftrightarrow>
     \<not> str_includes path ''handbook'' \<and> \<not> str_includes path ''cli-mode''
     \<and> \<not> str_includes path ''knowledgebase'' \<and> \<not> str_includes path ''credits''"
  by (simp add: getContentTypeFromPath_def)

text \<open>
  Claim C6. When the page has no \<open>content\<close> query parameter (or an empty one) and its
  path contains none of the four known substrings, \<open>init\<close> resolves no content type and
  shows the error panel, with the loading and content panels hidden, the content
  container untouched and no request made. When the query parameter has a value, that
  value is the content type whatever the path contains, and the first request is for
  that document in the current language.
\<close>

theorem content_init_identifier:
  "((contentParam p = None \<or> contentParam p = Some [])
      \<and> getContentTypeFromPath (pathname p) = None \<longrightarrow>
        contentType (fst (content_init net marked tm (l, p))) = None
        \<and> fetchLog (snd (content_init net marked tm (l, p))) = fetchLog p
        \<and> \<not> errorHidden (snd (content_init net marked tm (l, p)))
        \<and> loadingHidden (snd (content_init net marked tm (l, p)))
        \<and> contentHidden (snd (content_init net marked tm (l, p)))
        \<and> markdownContent (snd (content_init net marked tm (l, p))) = markdownContent p)
   \<and> (getContentTypeFromPath (pathname p) = None \<longleftrightarrow>
        \<not> str_includes (pathname p) ''handbook'' \<and> \<not> str_includes (pathname p) ''cli-mode''
        \<and> \<not> str_includes (pathname p) ''knowledgebase'' \<and> \<not> str_includes (pathname p) ''credits'')
   \<and> (contentParam p = Some q \<and> q \<noteq> [] \<longrightarrow>
        contentType (fst (content_init net marked tm (l, p))) = Some q
        \<and> (\<exists>rest. fetchLog (snd (content_init net marked tm (l, p)))
              = fetchLog p @ content_url (currentLang tm) q # rest))"
proof (intro conjI impI)
  assume a: "(contentParam p = None \<or> contentParam p = Some []) \<and> getContentTypeFromPath (pathname p) = None"
  then have ct: "or_else (contentParam p) (getContentTypeFromPath (pathname p)) = None"
    by (auto simp: or_else_def)
  have r: "content_init net marked tm (l, p) =
      (l\<lparr>contentType := None\<rparr>, (showError p)\<lparr>contentLoaderSet := True\<rparr>)"
    by (simp add: content_init_def Let_def ct)
  show "contentType (fst (content_init net marked tm (l, p))) = None"
    and "fetchLog (snd (content_init net marked tm (l, p))) = fetchLog p"
    and "\<not> errorHidden (snd (content_init net marked tm (l, p)))"
    and "loadingHidden (snd (content_init net marked tm (l, p)))"
    and "contentHidden (snd (content_init net marked tm (l, p)))"
    and "markdownContent (snd (content_init net marked tm (l, p))) = markdownContent p"
    by (simp_all add: r showError_def)
next
  show "getContentTypeFromPath (pathname p) = None \<longleftrightarrow>
        \<not> str_includes (pathname p) ''handbook'' \<and> \<not> str_includes (pathname p) ''cli-mode''
        \<and> \<not> str_includes (pathname p) ''knowledgebase'' \<and> \<not> str_includes (pathname p) ''credits''"
    by (rule getContentTypeFromPath_None)
next
  assume a: "contentParam p = Some q \<and> q \<noteq> []"
  then have ct: "or_else (contentParam p) (getContentTypeFromPath (pathname p)) = Some q"
    and q: "q \<noteq> []"
    by (simp_all add: or_else_def)
  have r: "content_init net marked tm (l, p) =
      (l\<lparr>contentType := Some q\<rparr>,
       (loadContent net marked tm (l\<lparr>contentType := Some q\<rparr>) p)\<lparr>contentLoaderSet := True\<rparr>)"
    using q by (simp add: content_init_def Let_def ct)
  show "contentType (fst (content_init net marked tm (l, p))) = Some q"
    by (simp add: r)
  show "\<exists>rest. fetchLog (snd (content_init net marked tm (l, p)))
              = fetchLog p @ content_url (currentLang tm) q # rest"
    using fetchLog_fetchMarkdownContent[of net q "currentLang tm"
        "p\<lparr>loadingHidden := False, contentHidden := True, errorHidden := True\<rparr>"]
    by (simp add: r fetchLog_loadContent)
qed

theorem content_init_identifier_witness:
  "contentParam example_page = None
   \<and> getContentTypeFromPath (pathname example_page) = None
   \<and> fetchLog (snd (content_init example_docs example_marked constructor (loader_constructor, example_page))) = []
   \<and> \<not> errorHidden (snd (content_init example_docs example_marked constructor (loader_constructor, example_page)))
   \<and> contentParam (example_page\<lparr>contentParam := Some ''handbook'', pathname := ''/credits.html''\<rparr>)
       = Some ''handbook''
   \<and> getContentTypeFromPath (pathname (example_page\<lparr>contentParam := Some ''handbook'', pathname := ''/credits.html''\<rparr>))
       = Some ''credits''
   \<and> contentType (fst (content_init example_docs example_marked constructor
        (loader_constructor, example_page\<lparr>contentParam := Some ''handbook'', pathname := ''/credits.html''\<rparr>)))
       = Some ''handbook''"
proof -
  have a: "contentParam example_page = None" "getContentTypeFromPath (pathname example_page) = None"
    "fetchLog example_page = []"
    by (simp_all add: example_page_def getContentTypeFromPath_def)
  have b: "getContentTypeFromPath ''/credits.html'' = Some ''credits''"
    by (simp add: getContentTypeFromPath_def)
  from content_init_identifier[of example_page example_docs example_marked constructor
          loader_constructor "''handbook''"]
       content_init_identifier[of "example_page\<lparr>contentParam := Some ''handbook'', pathname := ''/credits.html''\<rparr>"
          example_docs example_marked constructor loader_constructor "''handbook''"]
       a b
  show ?thesis by simp
qed

subsection \<open>Page metadata\<close>

lemma titles_nonempty: "entry titles ctype language = Some t \<Longrightarrow> t \<noteq> []"
  by (auto simp: entry_def titles_def split: if_splits)

lemma descriptions_nonempty: "entry descriptions ctype language = Some t \<Longrightarrow> t \<noteq> []"
  by (auto simp: entry_def descriptions_def split: if_splits)

lemma meta_title_eq:
  "meta_title ctype language =
     (case entry titles ctype language of
        Some t \<Rightarrow> t
      | None \<Rightarrow> (case entry titles ctype ''en'' of Some t \<Rightarrow> t | None \<Rightarrow> ''LinuxToys''))"
  by (auto simp: meta_title_def or_else_def or_default_def split: option.splits
      dest: titles_nonempty)

lemma meta_description_eq:
  "meta_description ctype language =
     (case entry descriptions ctype language of
        Some t \<Rightarrow> t
      | None \<Rightarrow> (case entry descriptions ctype ''en'' of
                   Some t \<Rightarrow> t
                 | None \<Rightarrow> ''LinuxToys documentation''))"
  by (auto simp: meta_description_def or_else_def or_default_def split: option.splits
      dest: descriptions_nonempty)

text \<open>
  Claim C9. For a content type and a language that name no member that every object
  inherits (for such a name the lookup in a table would find the inherited member, which
  the tables of the model do not hold), \<open>updatePageMeta\<close> chooses the title in three
  steps: the entry of the title table for the content type and the language when there is
  one, otherwise the entry for the content type and \<open>en\<close>, otherwise \<open>LinuxToys\<close>; the
  description likewise, from the description table, ending in
  \<open>LinuxToys documentation\<close>. The chosen title is written to the document title, the page
  title element and the og and twitter title tags; the chosen description to the page, og
  and twitter description tags.
\<close>

theorem updatePageMeta_three_steps:
  assumes "\<not> prototype_member ctype" and "\<not> prototype_member language"
  shows "documentTitle (updatePageMeta ctype language p) = meta_title ctype language
   \<and> pageTitle (updatePageMeta ctype language p) = meta_title ctype language
   \<and> ogTitle (updatePageMeta ctype language p) = meta_title ctype language
   \<and> twitterTitle (updatePageMeta ctype language p) = meta_title ctype language
   \<and> pageDescription (updatePageMeta ctype language p) = meta_description ctype language
   \<and> ogDescription (updatePageMeta ctype language p) = meta_description ctype language
   \<and> twitterDescription (updatePageMeta ctype language p) = meta_description ctype language
   \<and> meta_title ctype language =
       (case entry titles ctype language of
          Some t \<Rightarrow> t
        | None \<Rightarrow> (case entry titles ctype ''en'' of Some t \<Rightarrow> t | None \<Rightarrow> ''LinuxToys''))
   \<and> meta_description ctype language =
       (case entry descriptions ctype language of
          Some t \<Rightarrow> t
        | None \<Rightarrow> (case entry descriptions ctype ''en'' of
                     Some t \<Rightarrow> t
                   | None \<Rightarrow> ''LinuxToys documentation''))"
proof -
  have "documentTitle (updatePageMeta ctype language p) = meta_title ctype language"
    and "pageTitle (updatePageMeta ctype language p) = meta_title ctype language"
    and "ogTitle (updatePageMeta ctype language p) = meta_title ctype language"
    and "twitterTitle (updatePageMeta ctype language p) = meta_title ctype language"
    and "pageDescription (updatePageMeta ctype language p) = meta_description ctype language"
    and "ogDescription (updatePageMeta ctype language p) = meta_description ctype language"
    and "twitterDescription (updatePageMeta ctype language p) = meta_description ctype language"
    by (simp_all add: updatePageMeta_def Let_def)
  then show ?thesis
    using meta_title_eq[of ctype language] meta_description_eq[of ctype language] by blast
qed

theorem updatePageMeta_three_steps_witness:
  "\<not> prototype_member ''handbook'' \<and> \<not> prototype_member ''faq''
   \<and> \<not> prototype_member ''pt'' \<and> \<not> prototype_member ''ga''
   \<and> documentTitle (updatePageMeta ''handbook'' ''pt'' example_page) = ''Manual do Desenvolvedor - LinuxToys''
   \<and> ogTitle (updatePageMeta ''handbook'' ''pt'' example_page) = ''Manual do Desenvolvedor - LinuxToys''
   \<and> entry descriptions ''handbook'' ''ga'' = None
   \<and> twitterDescription (updatePageMeta ''handbook'' ''ga'' example_page)
       = ''Complete guide for developing LinuxToys tools and scripts''
   \<and> entry titles ''faq'' ''pt'' = None \<and> entry titles ''faq'' ''en'' = None
   \<and> pageTitle (updatePageMeta ''faq'' ''pt'' example_page) = ''LinuxToys''
   \<and> pageDescription (updatePageMeta ''faq'' ''pt'' example_page) = ''LinuxToys documentation''"
proof -
  have p: "\<not> prototype_member ''handbook''" "\<not> prototype_member ''faq''"
    "\<not> prototype_member ''pt''" "\<not> prototype_member ''ga''"
    by (simp_all add: prototype_member_def)
  have e: "entry titles ''handbook'' ''pt'' = Some ''Manual do Desenvolvedor - LinuxToys''"
    "entry descriptions ''handbook'' ''ga'' = None"
    "entry descriptions ''handbook'' ''en'' = Some ''Complete guide for developing LinuxToys tools and scripts''"
    "entry titles ''faq'' ''pt'' = None" "entry titles ''faq'' ''en'' = None"
    "entry descriptions ''faq'' ''pt'' = None" "entry descriptions ''faq'' ''en'' = None"
    by (simp_all add: entry_def titles_def descriptions_def)
  from updatePageMeta_three_steps[OF p(1) p(3), of example_page]
       updatePageMeta_three_steps[OF p(1) p(4), of example_page]
       updatePageMeta_three_steps[OF p(2) p(3), of example_page] e p
  show ?thesis by simp
qed

end
